theory Spec2Isabelle
  imports Complex_Main "HOL-Library.AList"
begin

unbundle bit_operations_syntax

section \<open>The texture file layer of libtexture (texfile.cpp)\<close>

text \<open>
  The development embeds \<^verbatim>\<open>src/libtexture/texfile.cpp\<close>: the \<^verbatim>\<open>TextureFile\<close> methods
  \<^verbatim>\<open>open\<close>, \<^verbatim>\<open>read_tile\<close> and \<^verbatim>\<open>release\<close>, the \<^verbatim>\<open>Tile\<close> constructor, and the
  \<^verbatim>\<open>TextureSystemImpl\<close> methods \<^verbatim>\<open>find_texturefile\<close>, \<^verbatim>\<open>check_max_files\<close>,
  \<^verbatim>\<open>find_tile\<close>, \<^verbatim>\<open>gettextureinfo\<close>, \<^verbatim>\<open>texture\<close> and \<^verbatim>\<open>texture_lookup\<close>.

  Conventions.
  \<^item> Mutation is explicit state passing. A \<^verbatim>\<open>TextureFile\<close> method takes and returns the
    file together with the owning system's counter \<^verbatim>\<open>m_open_files\<close>, which the C++
    reaches through \<^verbatim>\<open>m_texsys\<close>.
  \<^item> An \<^verbatim>\<open>ASSERT\<close> that fails, a dereference of an empty \<^verbatim>\<open>scoped_ptr\<close> and a read
    outside a tile buffer are values of the type \<open>fault\<close>; a faulting call returns
    \<open>Inl\<close> of it.
  \<^item> The image reader (\<^verbatim>\<open>ImageInput\<close>) is an external collaborator. What the disk holds
    for a file name at the moment of a call is a \<open>probe\<close> handed to the call.
  \<^item> C \<^verbatim>\<open>int\<close> values are \<open>int\<close>; the three products of \<^verbatim>\<open>open\<close> that can leave the
    32-bit range are wrapped by \<open>wrap32\<close>. A C \<^verbatim>\<open>float\<close> is the real number it
    stands for: the code copies floats, and its only arithmetic on them, the texel
    coordinate of \<^verbatim>\<open>texture_lookup\<close>, rounds every intermediate result to a float by a
    rounding function that the model takes as the parameter \<open>fl\<close>.
  \<^item> The diagnostics written to \<^verbatim>\<open>std::cerr\<close> and the two matrices \<^verbatim>\<open>m_Mlocal\<close> and
    \<^verbatim>\<open>m_Mproj\<close> that \<^verbatim>\<open>open\<close> stores are not part of the model.
\<close>

datatype fault = AssertFailed | NullDeref | DanglingReference | OutOfBounds

subsection \<open>Parameters and format specs (paramtype.h, imageio.h)\<close>

datatype ParamBaseType = PT_UNKNOWN | PT_INT | PT_FLOAT | PT_STRING | PT_MATRIX

datatype pvalue = IntVal int | FloatVal real | StringVal string | MatrixVal "real list"

record ImageIOParameter =
  pname :: string
  ptype :: ParamBaseType
  nvalues :: int
  pdata :: "pvalue list"

record ImageIOFormatSpec =
  width :: int
  height :: int
  full_width :: int
  full_height :: int
  tile_width :: int
  tile_height :: int
  tile_depth :: int
  nchannels :: int
  extra_attribs :: "ImageIOParameter list"

text \<open>
  Modelled from the spec: \<^verbatim>\<open>find_attribute\<close>, declared in imageio.h, which is not among
  the sources. A metadata attribute is looked up by its name; the model takes the first
  attribute of the spec with that name.
\<close>

definition find_attribute :: "ImageIOFormatSpec \<Rightarrow> string \<Rightarrow> ImageIOParameter option" where
  "find_attribute spec name = find (\<lambda>p. pname p = name) (extra_attribs spec)"

text \<open>
  Modelled from the spec: \<^verbatim>\<open>tile_pixels\<close>, declared in imageio.h. The texel buffer of a
  tile holds \<^verbatim>\<open>tile_width * tile_height * tile_depth\<close> pixels of \<^verbatim>\<open>nchannels\<close> floats.
\<close>

definition tile_pixels :: "ImageIOFormatSpec \<Rightarrow> int" where
  "tile_pixels spec = tile_width spec * tile_height spec * tile_depth spec"

text \<open>The value of a C \<^verbatim>\<open>int\<close> expression whose exact value is \<open>x\<close>, wrapped to 32 bits.\<close>

definition wrap32 :: "int \<Rightarrow> int" where
  "wrap32 x = (x + 2 ^ 31) mod 2 ^ 32 - 2 ^ 31"

subsection \<open>The image reader\<close>

text \<open>
  An image on disk: the spec of sub-image 0, the specs of the further sub-images (MIP
  levels), the reader's format name, and the tiles as an association list from
  (sub-image, x, y, z) to the texels of that tile as floats. A tile that is not listed
  is one whose read fails.
\<close>

record image =
  subimage0 :: ImageIOFormatSpec
  more_subimages :: "ImageIOFormatSpec list"
  format_name :: string
  tiles :: "((int \<times> int \<times> int \<times> int) \<times> real list) list"

text \<open>
  What \<^verbatim>\<open>ImageInput::create\<close> followed by \<^verbatim>\<open>ImageInput::open\<close> finds for a file name:
  no reader for it, a reader whose \<^verbatim>\<open>open\<close> fails, or a reader opened on an image.
\<close>

datatype probe = NoReader | OpenFails | Opens image

record ImageInput =
  img :: image
  current_subimage :: int

text \<open>
  Modelled from the spec: the reader's \<^verbatim>\<open>seek_subimage\<close> and \<^verbatim>\<open>read_tile\<close>, declared in
  imageio.h. A seek to an existing sub-image makes it current and gives its spec; any
  other seek fails. A read gives the tile at the given origin in the current
  sub-image.
\<close>

definition seek_subimage :: "int \<Rightarrow> ImageInput \<Rightarrow> ImageIOFormatSpec option \<times> ImageInput" where
  "seek_subimage k rd =
     (let specs = subimage0 (img rd) # more_subimages (img rd)
      in if 0 \<le> k \<and> k < int (length specs)
         then (Some (specs ! nat k), rd\<lparr>current_subimage := k\<rparr>)
         else (None, rd))"

definition reader_read_tile :: "ImageInput \<Rightarrow> int \<Rightarrow> int \<Rightarrow> int \<Rightarrow> real list option" where
  "reader_read_tile rd x y z = map_of (tiles (img rd)) (current_subimage rd, x, y, z)"

subsection \<open>Enumerations and their name tables\<close>

datatype TexFormat =
    TexFormatUnknown | TexFormatTexture | TexFormatTexture3d
  | TexFormatShadow | TexFormatCubeFaceShadow | TexFormatVolumeShadow
  | TexFormatLatLongEnv | TexFormatCubeFaceEnv

datatype Wrap = WrapDefault | WrapBlack | WrapClamp | WrapPeriodic | WrapMirror

text \<open>
  The enumerators of the cube layout are those the source names: the constructor
  initialises \<^verbatim>\<open>m_cubelayout\<close> to \<^verbatim>\<open>CubeUnknown\<close>, and \<^verbatim>\<open>open\<close> assigns
  \<^verbatim>\<open>CubeThreeByTwo\<close>, \<^verbatim>\<open>CubeOneBySix\<close> and \<^verbatim>\<open>CubeLast\<close>.
\<close>

datatype CubeLayout = CubeUnknown | CubeThreeByTwo | CubeOneBySix | CubeLast

definition texture_format_name :: "(string \<times> TexFormat) list" where
  "texture_format_name =
     [(''unknown'', TexFormatUnknown), (''Plain Texture'', TexFormatTexture),
      (''Volume Texture'', TexFormatTexture3d), (''Shadow'', TexFormatShadow),
      (''CubeFace Shadow'', TexFormatCubeFaceShadow),
      (''Volume Shadow'', TexFormatVolumeShadow),
      (''LatLong Environment'', TexFormatLatLongEnv),
      (''CubeFace Environment'', TexFormatCubeFaceEnv)]"

definition texture_type_name :: "TexFormat \<Rightarrow> string" where
  "texture_type_name f =
     (case f of
        TexFormatUnknown \<Rightarrow> ''unknown''
      | TexFormatTexture \<Rightarrow> ''Plain Texture''
      | TexFormatTexture3d \<Rightarrow> ''Volume Texture''
      | TexFormatShadow \<Rightarrow> ''Shadow''
      | TexFormatCubeFaceShadow \<Rightarrow> ''Shadow''
      | TexFormatVolumeShadow \<Rightarrow> ''Shadow''
      | TexFormatLatLongEnv \<Rightarrow> ''Environment''
      | TexFormatCubeFaceEnv \<Rightarrow> ''Environment'')"

definition texture_format_string :: "TexFormat \<Rightarrow> string" where
  "texture_format_string f =
     (case f of
        TexFormatUnknown \<Rightarrow> ''unknown''
      | TexFormatTexture \<Rightarrow> ''Plain Texture''
      | TexFormatTexture3d \<Rightarrow> ''Volume Texture''
      | TexFormatShadow \<Rightarrow> ''Shadow''
      | TexFormatCubeFaceShadow \<Rightarrow> ''CubeFace Shadow''
      | TexFormatVolumeShadow \<Rightarrow> ''Volume Shadow''
      | TexFormatLatLongEnv \<Rightarrow> ''LatLong Environment''
      | TexFormatCubeFaceEnv \<Rightarrow> ''CubeFace Environment'')"

definition wrap_type_name :: "(string \<times> Wrap) list" where
  "wrap_type_name =
     [(''default'', WrapDefault), (''black'', WrapBlack), (''clamp'', WrapClamp),
      (''periodic'', WrapPeriodic), (''mirror'', WrapMirror)]"

text \<open>
  Both decoding loops run over the table from index 0 and stop at the first entry whose
  name compares equal: \<open>map_of\<close> on the table in its order.
\<close>

definition decode_wrapmode :: "string \<Rightarrow> Wrap" where
  "decode_wrapmode name =
     (case map_of wrap_type_name name of Some w \<Rightarrow> w | None \<Rightarrow> WrapDefault)"

definition parse_wrapmodes :: "string \<Rightarrow> Wrap \<times> Wrap" where
  "parse_wrapmodes wrapmodes =
     (let swrap = takeWhile (\<lambda>c. c \<noteq> CHR '','') wrapmodes;
          twrap = (case dropWhile (\<lambda>c. c \<noteq> CHR '','') wrapmodes of
                     [] \<Rightarrow> swrap
                   | _ # rest \<Rightarrow> rest)
      in (decode_wrapmode swrap, decode_wrapmode twrap))"

subsection \<open>TextureFile\<close>

record TextureFile =
  m_filename :: string
  m_used :: bool
  m_broken :: bool
  m_texformat :: TexFormat
  m_swrap :: Wrap
  m_twrap :: Wrap
  m_cubelayout :: CubeLayout
  m_y_up :: bool
  m_spec :: "ImageIOFormatSpec list"
  m_input :: "ImageInput option"

text \<open>
  Modelled from the spec: the accessors \<^verbatim>\<open>opened\<close> and \<^verbatim>\<open>use\<close>, declared in
  texture_pvt.h, which is not among the sources. A file is open when it holds a
  reader, and \<^verbatim>\<open>use\<close> sets the usage flag.
\<close>

definition opened :: "TextureFile \<Rightarrow> bool" where
  "opened tf = (m_input tf \<noteq> None)"

definition use :: "TextureFile \<Rightarrow> TextureFile" where
  "use tf = tf\<lparr>m_used := True\<rparr>"

text \<open>
  The \<^verbatim>\<open>do ... while\<close> loop of \<^verbatim>\<open>open\<close> that collects the specs of all sub-images.
  \<open>nsubimages\<close> is the counter before the increment.
\<close>

function read_subimages ::
  "ImageInput \<Rightarrow> ImageIOFormatSpec list \<Rightarrow> ImageIOFormatSpec \<Rightarrow> int
     \<Rightarrow> fault + (ImageIOFormatSpec list \<times> ImageInput)" where
  "read_subimages rd specs tempspec nsubimages =
     (let n = nsubimages + 1; specs' = specs @ [tempspec]
      in if nchannels tempspec \<noteq> nchannels (hd specs') then Inl AssertFailed
         else (case seek_subimage n rd of
                 (None, rd') \<Rightarrow> Inr (specs', rd')
               | (Some sp, rd') \<Rightarrow> read_subimages rd' specs' sp n))"
  by pat_completeness auto
termination
  by (relation "measure (\<lambda>(rd, specs, tempspec, nsubimages).
                  nat (int (length (more_subimages (img rd))) + 1 - nsubimages))")
     (auto simp: seek_subimage_def Let_def split: if_splits)

definition decode_texformat :: "ImageIOFormatSpec \<Rightarrow> TexFormat" where
  "decode_texformat spec =
     (case find_attribute spec ''textureformat'' of
        Some p \<Rightarrow>
          (if ptype p = PT_STRING \<and> nvalues p = 1
           then (case pdata p of
                   StringVal textureformat # _ \<Rightarrow>
                     (case map_of texture_format_name textureformat of
                        Some f \<Rightarrow> f
                      | None \<Rightarrow> TexFormatTexture)
                 | _ \<Rightarrow> TexFormatTexture)
           else TexFormatTexture)
      | None \<Rightarrow> TexFormatTexture)"

definition cube_layout_of :: "ImageIOFormatSpec \<Rightarrow> CubeLayout" where
  "cube_layout_of spec =
     (let w = max (full_width spec) (tile_width spec);
          h = max (full_height spec) (tile_height spec)
      in if width spec = wrap32 (3 * w) \<and> height spec = wrap32 (2 * h) then CubeThreeByTwo
         else if width spec = w \<and> height spec = wrap32 (6 * h) then CubeOneBySix
         else CubeLast)"

text \<open>
  The part of \<^verbatim>\<open>open\<close> that runs only on the first successful open: it fills the
  fields of the file from the spec of sub-image 0.
\<close>

definition first_open_fields :: "string \<Rightarrow> TextureFile \<Rightarrow> TextureFile" where
  "first_open_fields fmt tf =
     (let spec = hd (m_spec tf);
          tf1 = tf\<lparr>m_texformat := decode_texformat spec\<rparr>;
          tf2 = (case find_attribute spec ''wrapmodes'' of
                   Some p \<Rightarrow>
                     (if ptype p = PT_STRING \<and> nvalues p = 1
                      then (case pdata p of
                              StringVal wrapmodes # _ \<Rightarrow>
                                tf1\<lparr>m_swrap := fst (parse_wrapmodes wrapmodes),
                                    m_twrap := snd (parse_wrapmodes wrapmodes)\<rparr>
                            | _ \<Rightarrow> tf1)
                      else tf1)
                 | None \<Rightarrow> tf1);
          tf3 = tf2\<lparr>m_y_up := False\<rparr>
      in if m_texformat tf3 = TexFormatCubeFaceEnv
         then tf3\<lparr>m_y_up := (fmt = ''openexr''), m_cubelayout := cube_layout_of spec\<rparr>
         else tf3)"

definition open_tf :: "probe \<Rightarrow> TextureFile \<times> int \<Rightarrow> fault + (TextureFile \<times> int)" where
  "open_tf pr st =
     (case st of (tf, nopen) \<Rightarrow>
        if m_input tf \<noteq> None then Inr (tf, nopen)
        else if m_broken tf then Inr (tf, nopen)
        else (case pr of
                NoReader \<Rightarrow> Inr (tf\<lparr>m_broken := True\<rparr>, nopen)
              | OpenFails \<Rightarrow> Inr (tf\<lparr>m_broken := True, m_input := None\<rparr>, nopen)
              | Opens im \<Rightarrow>
                  (let rd = \<lparr>img = im, current_subimage = 0\<rparr>;
                       tf1 = use (tf\<lparr>m_input := Some rd\<rparr>);
                       nopen1 = nopen + 1
                   in if m_spec tf1 \<noteq> [] then Inr (tf1, nopen1)
                      else (case read_subimages rd [] (subimage0 im) 0 of
                              Inl e \<Rightarrow> Inl e
                            | Inr (specs, rd') \<Rightarrow>
                                Inr (first_open_fields (format_name im)
                                       (tf1\<lparr>m_spec := specs, m_input := Some rd'\<rparr>),
                                     nopen1)))))"

text \<open>
  \<^verbatim>\<open>read_tile\<close> calls \<^verbatim>\<open>open\<close> and then uses \<^verbatim>\<open>m_input\<close> without a test. The result
  is the reader's answer (the texels, or \<open>None\<close> when the reader's read fails), with the
  file and the counter as \<^verbatim>\<open>open\<close> and the seek left them.
\<close>

definition read_tile ::
  "probe \<Rightarrow> int \<Rightarrow> int \<Rightarrow> int \<Rightarrow> int \<Rightarrow> TextureFile \<times> int
     \<Rightarrow> fault + (real list option \<times> TextureFile \<times> int)" where
  "read_tile pr level x y z st =
     (case open_tf pr st of
        Inl e \<Rightarrow> Inl e
      | Inr (tf, nopen) \<Rightarrow>
          (case m_input tf of
             None \<Rightarrow> Inl NullDeref
           | Some rd \<Rightarrow>
               (let rd' = (if current_subimage rd \<noteq> level
                           then snd (seek_subimage level rd) else rd)
                in Inr (reader_read_tile rd' x y z, tf\<lparr>m_input := Some rd'\<rparr>, nopen))))"

definition release :: "TextureFile \<times> int \<Rightarrow> TextureFile \<times> int" where
  "release st =
     (case st of (tf, nopen) \<Rightarrow>
        if m_used tf then (tf\<lparr>m_used := False\<rparr>, nopen)
        else if opened tf then (tf\<lparr>m_input := None, m_used := False\<rparr>, nopen - 1)
        else (tf, nopen))"

text \<open>
  The constructor: the initial field values, then \<^verbatim>\<open>open\<close>.
\<close>

definition TextureFile_init :: "string \<Rightarrow> TextureFile" where
  "TextureFile_init filename =
     \<lparr>m_filename = filename, m_used = True, m_broken = False,
      m_texformat = TexFormatTexture, m_swrap = WrapBlack, m_twrap = WrapBlack,
      m_cubelayout = CubeUnknown, m_y_up = False, m_spec = [], m_input = None\<rparr>"

definition TextureFile_new :: "probe \<Rightarrow> string \<Rightarrow> int \<Rightarrow> fault + (TextureFile \<times> int)" where
  "TextureFile_new pr filename nopen = open_tf pr (TextureFile_init filename, nopen)"

subsection \<open>Tiles\<close>

text \<open>
  A \<^verbatim>\<open>TileID\<close> holds a reference to its \<^verbatim>\<open>TextureFile\<close>; the model holds the file's
  name, the key of the file in the registry.
\<close>

record TileID =
  tid_file :: string
  tid_level :: int
  tid_x :: int
  tid_y :: int
  tid_z :: int

text \<open>
  \<open>m_texels\<close> is the buffer seen as floats: the C++ resizes the byte vector to
  \<^verbatim>\<open>tile_pixels * nchannels * typesize(PT_FLOAT)\<close>, four bytes per float.
\<close>

record Tile =
  m_id :: TileID
  m_valid :: bool
  m_used_tile :: bool
  m_texels :: "real list"

definition tile_bytes :: "Tile \<Rightarrow> int" where
  "tile_bytes tile = 4 * int (length (m_texels tile))"

subsection \<open>TextureSystemImpl: the file registry and the tile cache\<close>

text \<open>
  The class is declared in texture_pvt.h; its members are those this file uses.
  \<open>m_texturefiles\<close> and \<open>tilecache\<close> are association lists in the iteration order of
  the container; \<^verbatim>\<open>map[key] = value\<close> is \<open>AList.update\<close>, which replaces the value of a
  present key in place and appends an absent one. \<open>m_file_sweep\<close> is the key the
  iterator points to, \<open>None\<close> for \<^verbatim>\<open>end()\<close>. The constructor does not initialise the
  cursor; the model starts it at \<^verbatim>\<open>end()\<close>, the position \<^verbatim>\<open>check_max_files\<close> tests for.
  \<^verbatim>\<open>init\<close> sets the two budgets to 100 files and 50 MB.
\<close>

record TextureSystemImpl =
  m_texturefiles :: "(string \<times> TextureFile) list"
  m_file_sweep :: "string option"
  m_open_files :: int
  m_max_open_files :: int
  m_max_memory_MB :: int
  tilecache :: "(TileID \<times> Tile) list"

definition TextureSystemImpl_new :: TextureSystemImpl where
  "TextureSystemImpl_new =
     \<lparr>m_texturefiles = [], m_file_sweep = None, m_open_files = 0,
      m_max_open_files = 100, m_max_memory_MB = 50, tilecache = []\<rparr>"

definition map_begin :: "('k \<times> 'v) list \<Rightarrow> 'k option" where
  "map_begin m = (case m of [] \<Rightarrow> None | (k, _) # _ \<Rightarrow> Some k)"

text \<open>
  One iteration of the loop of \<^verbatim>\<open>check_max_files\<close>: reset the cursor to \<^verbatim>\<open>begin()\<close> when
  it is at \<^verbatim>\<open>end()\<close>, assert that it is not at \<^verbatim>\<open>end()\<close>, and call \<^verbatim>\<open>release\<close> on the
  entry it points to. The body holds no statement that moves the cursor forward.
\<close>

definition sweep_step :: "TextureSystemImpl \<Rightarrow> fault + TextureSystemImpl" where
  "sweep_step s =
     (let s1 = (if m_file_sweep s = None
                then s\<lparr>m_file_sweep := map_begin (m_texturefiles s)\<rparr> else s)
      in case m_file_sweep s1 of
           None \<Rightarrow> Inl AssertFailed
         | Some key \<Rightarrow>
             (case map_of (m_texturefiles s1) key of
                None \<Rightarrow> Inl DanglingReference
              | Some tf \<Rightarrow>
                  (case release (tf, m_open_files s1) of
                     (tf', nopen) \<Rightarrow>
                       Inr (s1\<lparr>m_texturefiles := AList.update key tf' (m_texturefiles s1),
                               m_open_files := nopen\<rparr>))))"

text \<open>
  The loop itself, with fuel: \<open>None\<close> is the loop still running when the fuel is used
  up, \<open>Some\<close> is the loop left (normally, or by the failed assertion).
\<close>

fun check_max_files :: "nat \<Rightarrow> TextureSystemImpl \<Rightarrow> (fault + TextureSystemImpl) option" where
  "check_max_files 0 s =
     (if m_open_files s \<ge> m_max_open_files s then None else Some (Inr s))"
| "check_max_files (Suc fuel) s =
     (if m_open_files s \<ge> m_max_open_files s
      then (case sweep_step s of
              Inl e \<Rightarrow> Some (Inl e)
            | Inr s' \<Rightarrow> check_max_files fuel s')
      else Some (Inr s))"

text \<open>
  \<^verbatim>\<open>find_texturefile\<close> returns a reference to the entry of \<open>filename\<close>; in the model the
  reference is the name, and the entry is read from the returned registry. \<open>disk\<close>
  tells what the reader finds for each file name during the call.
\<close>

definition find_texturefile ::
  "nat \<Rightarrow> (string \<Rightarrow> probe) \<Rightarrow> string \<Rightarrow> TextureSystemImpl
     \<Rightarrow> (fault + TextureSystemImpl) option" where
  "find_texturefile fuel disk filename s =
     (case map_of (m_texturefiles s) filename of
        None \<Rightarrow>
          (case check_max_files fuel s of
             None \<Rightarrow> None
           | Some (Inl e) \<Rightarrow> Some (Inl e)
           | Some (Inr s1) \<Rightarrow>
               (case TextureFile_new (disk filename) filename (m_open_files s1) of
                  Inl e \<Rightarrow> Some (Inl e)
                | Inr (tf, nopen) \<Rightarrow>
                    Some (Inr (s1\<lparr>m_texturefiles :=
                                     AList.update filename (use tf) (m_texturefiles s1),
                                   m_open_files := nopen\<rparr>))))
      | Some tf \<Rightarrow>
          Some (Inr (s\<lparr>m_texturefiles := AList.update filename (use tf) (m_texturefiles s)\<rparr>)))"

text \<open>
  The \<^verbatim>\<open>Tile\<close> constructor. The buffer is resized (zero-filled) to the size of a tile of
  sub-image 0 and handed to \<^verbatim>\<open>read_tile\<close>; a failed read is reported on \<^verbatim>\<open>std::cerr\<close>
  only, and the tile keeps \<^verbatim>\<open>m_valid = true\<close> and the zeros.
\<close>

definition Tile_new ::
  "(string \<Rightarrow> probe) \<Rightarrow> TileID \<Rightarrow> TextureSystemImpl \<Rightarrow> fault + (Tile \<times> TextureSystemImpl)" where
  "Tile_new disk tid s =
     (case map_of (m_texturefiles s) (tid_file tid) of
        None \<Rightarrow> Inl DanglingReference
      | Some tf \<Rightarrow>
          (case m_spec tf of
             [] \<Rightarrow> Inl OutOfBounds
           | spec # _ \<Rightarrow>
               (let n = nat (tile_pixels spec * nchannels spec)
                in case read_tile (disk (tid_file tid)) (tid_level tid)
                          (tid_x tid) (tid_y tid) (tid_z tid) (tf, m_open_files s) of
                     Inl e \<Rightarrow> Inl e
                   | Inr (res, tf', nopen) \<Rightarrow>
                       Inr (\<lparr>m_id = tid, m_valid = True, m_used_tile = True,
                             m_texels = (case res of
                                           None \<Rightarrow> replicate n 0
                                         | Some texels \<Rightarrow> take n (texels @ replicate n 0))\<rparr>,
                            s\<lparr>m_texturefiles :=
                                 AList.update (tid_file tid) tf' (m_texturefiles s),
                              m_open_files := nopen\<rparr>))))"

definition find_tile ::
  "(string \<Rightarrow> probe) \<Rightarrow> TileID \<Rightarrow> TextureSystemImpl \<Rightarrow> fault + (Tile \<times> TextureSystemImpl)" where
  "find_tile disk tid s =
     (case map_of (tilecache s) tid of
        Some tile \<Rightarrow> Inr (tile, s)
      | None \<Rightarrow>
          (case Tile_new disk tid s of
             Inl e \<Rightarrow> Inl e
           | Inr (tile, s1) \<Rightarrow>
               Inr (tile, s1\<lparr>tilecache := AList.update tid tile (tilecache s1)\<rparr>)))"

text \<open>
  A sequence of \<^verbatim>\<open>find_tile\<close> calls by one caller that drops each returned reference
  before the next call, as \<^verbatim>\<open>texture_lookup\<close> does when it returns.
\<close>

fun find_tiles ::
  "(string \<Rightarrow> probe) \<Rightarrow> TileID list \<Rightarrow> TextureSystemImpl \<Rightarrow> fault + TextureSystemImpl" where
  "find_tiles disk [] s = Inr s"
| "find_tiles disk (tid # tids) s =
     (case find_tile disk tid s of
        Inl e \<Rightarrow> Inl e
      | Inr (tile, s') \<Rightarrow> find_tiles disk tids s')"

text \<open>
  The bytes of the cached tiles, and the bytes of those cached tiles that no caller
  holds a reference to (\<open>held\<close> lists the ids of the tiles callers hold).
\<close>

definition cache_bytes :: "TextureSystemImpl \<Rightarrow> int" where
  "cache_bytes s = sum_list (map (\<lambda>e. tile_bytes (snd e)) (tilecache s))"

definition cache_only_bytes :: "TileID list \<Rightarrow> TextureSystemImpl \<Rightarrow> int" where
  "cache_only_bytes held s =
     sum_list (map (\<lambda>e. tile_bytes (snd e)) (filter (\<lambda>e. fst e \<notin> set held) (tilecache s)))"

subsection \<open>gettextureinfo\<close>

text \<open>
  \<^verbatim>\<open>ParamType\<close> is declared in paramtype.h, which is not among the sources: a base type
  and an array length, compared field by field. \<^verbatim>\<open>ParamType(PT_INT,2)\<close> is two ints, and
  the one-argument form \<^verbatim>\<open>ParamType(PT_STRING)\<close> a single value, array length 1.
\<close>

record ParamType =
  basetype :: ParamBaseType
  arraylen :: int

text \<open>
  The output buffer \<^verbatim>\<open>void *data\<close> is a list of cells, one per element. A write of the
  elements \<open>vs\<close> at the start of the buffer replaces its first cells.
\<close>

definition store :: "'a list \<Rightarrow> 'a list \<Rightarrow> 'a list" where
  "store vs data = vs @ drop (length vs) data"

text \<open>
  \<^verbatim>\<open>((int *)p->data())[i]\<close> reads a stored element through an \<^verbatim>\<open>int\<close> pointer. A stored
  int is read as itself; for any other element the read gives the bit pattern of the
  element, which is the parameter \<open>bits\<close>.
\<close>

definition int_view :: "(pvalue \<Rightarrow> int) \<Rightarrow> pvalue \<Rightarrow> int" where
  "int_view bits v = (case v of IntVal n \<Rightarrow> n | _ \<Rightarrow> bits v)"

text \<open>The general case, after the named fields (the code from \<^verbatim>\<open>// general case\<close> on).\<close>

definition gettextureinfo_general ::
  "(pvalue \<Rightarrow> int) \<Rightarrow> ImageIOFormatSpec \<Rightarrow> string \<Rightarrow> ParamType \<Rightarrow> pvalue list
     \<Rightarrow> bool \<times> pvalue list" where
  "gettextureinfo_general bits spec dataname dtype data =
     (case find_attribute spec dataname of
        None \<Rightarrow> (False, data)
      | Some p \<Rightarrow>
          if nvalues p = arraylen dtype
          then (if ptype p = basetype dtype
                then (True, store (take (nat (arraylen dtype)) (pdata p)) data)
                else if ptype p = PT_FLOAT \<and> basetype dtype = PT_INT
                then (True, store (map (\<lambda>v. FloatVal (of_int (int_view bits v)))
                                       (take (nat (nvalues p)) (pdata p))) data)
                else (False, data))
          else (False, data))"

text \<open>The body of \<^verbatim>\<open>gettextureinfo\<close> once the file is resolved.\<close>

definition gettextureinfo_file ::
  "(pvalue \<Rightarrow> int) \<Rightarrow> TextureFile \<Rightarrow> string \<Rightarrow> ParamType \<Rightarrow> pvalue list
     \<Rightarrow> fault + (bool \<times> pvalue list)" where
  "gettextureinfo_file bits tf dataname dtype data =
     (if m_broken tf then Inr (False, data)
      else (case m_spec tf of
              [] \<Rightarrow> Inl OutOfBounds
            | spec # _ \<Rightarrow>
                if dataname = ''resolution'' \<and> dtype = \<lparr>basetype = PT_INT, arraylen = 2\<rparr>
                then Inr (True, store [IntVal (width spec), IntVal (height spec)] data)
                else if dataname = ''texturetype'' \<and> dtype = \<lparr>basetype = PT_STRING, arraylen = 1\<rparr>
                then Inr (True, store [StringVal (texture_type_name (m_texformat tf))] data)
                else if dataname = ''textureformat'' \<and> dtype = \<lparr>basetype = PT_STRING, arraylen = 1\<rparr>
                then Inr (True, store [StringVal (texture_format_string (m_texformat tf))] data)
                else if dataname = ''channels'' \<and> dtype = \<lparr>basetype = PT_INT, arraylen = 1\<rparr>
                then Inr (True, store [IntVal (nchannels spec)] data)
                else if dataname = ''channels'' \<and> dtype = \<lparr>basetype = PT_FLOAT, arraylen = 1\<rparr>
                then Inr (True, store [FloatVal (of_int (nchannels spec))] data)
                else Inr (gettextureinfo_general bits spec dataname dtype data)))"

definition gettextureinfo ::
  "nat \<Rightarrow> (string \<Rightarrow> probe) \<Rightarrow> (pvalue \<Rightarrow> int) \<Rightarrow> string \<Rightarrow> string \<Rightarrow> ParamType
     \<Rightarrow> pvalue list \<times> TextureSystemImpl
     \<Rightarrow> (fault + (bool \<times> pvalue list \<times> TextureSystemImpl)) option" where
  "gettextureinfo fuel disk bits filename dataname dtype st =
     (case st of (data, s) \<Rightarrow>
        (case find_texturefile fuel disk filename s of
           None \<Rightarrow> None
         | Some (Inl e) \<Rightarrow> Some (Inl e)
         | Some (Inr s1) \<Rightarrow>
             (case map_of (m_texturefiles s1) filename of
                None \<Rightarrow> Some (Inr (False, data, s1))
              | Some tf \<Rightarrow>
                  (case gettextureinfo_file bits tf dataname dtype data of
                     Inl e \<Rightarrow> Some (Inl e)
                   | Inr (ok, data') \<Rightarrow> Some (Inr (ok, data', s1))))))"

subsection \<open>The sampler: texture and texture_lookup\<close>

text \<open>
  Float memory is a function from addresses (counted in floats) to values. A
  \<^verbatim>\<open>VaryingRef<float>\<close> is a base address and a step (counted in floats as well; 0 for a
  uniform value), and \<^verbatim>\<open>v[i]\<close> is the cell at \<open>vr_at v i\<close>. The references \<^verbatim>\<open>s\<close>, \<^verbatim>\<open>t\<close>
  and \<^verbatim>\<open>options.fill\<close>, which the code reads without a test, are non-null; the one
  reference the code tests, \<^verbatim>\<open>options.alpha\<close>, is an option. \<^verbatim>\<open>result\<close> is the address of
  the caller's result array, and \<^verbatim>\<open>runflags\<close> the predicate "lane i is on".

  \<^verbatim>\<open>TextureOptions\<close> carries the fields the code of this file reads or writes. The
  blur, width and bias references enter only the four derivative footprints at the
  top of \<^verbatim>\<open>texture_lookup\<close>, which nothing uses afterwards; they are left out together
  with the derivative arguments.
\<close>

type_synonym mem = "int \<Rightarrow> real"

record VaryingRef =
  vr_ptr :: int
  vr_step :: int

definition vr_at :: "VaryingRef \<Rightarrow> int \<Rightarrow> int" where
  "vr_at v i = vr_ptr v + i * vr_step v"

record TextureOptions =
  firstchannel :: int
  o_nchannels :: int
  swrap :: Wrap
  twrap :: Wrap
  fill :: VaryingRef
  alpha :: "VaryingRef option"
  actualchannels :: int

text \<open>\<^verbatim>\<open>Imath::clamp (a, l, h)\<close> of the Imath library: \<^verbatim>\<open>(a < l) ? l : ((a > h) ? h : a)\<close>.\<close>

definition Imath_clamp :: "int \<Rightarrow> int \<Rightarrow> int \<Rightarrow> int" where
  "Imath_clamp a l h = (if a < l then l else if a > h then h else a)"

text \<open>
  The loop of \<^verbatim>\<open>texture\<close> for a file that is missing or broken. In
  \<^verbatim>\<open>result[c] = options.fill\<close> the reference itself is converted to a float; the
  conversion is declared in varyingref.h, which is not among the sources, and is the
  parameter \<open>cv\<close> (given the reference and the memory). The pointer \<^verbatim>\<open>result\<close> starts
  at the caller's address and moves by \<^verbatim>\<open>nchannels\<close> after every lane of the loop.
\<close>

definition fill_lane ::
  "(VaryingRef \<Rightarrow> mem \<Rightarrow> real) \<Rightarrow> TextureOptions \<Rightarrow> int \<Rightarrow> int \<Rightarrow> mem \<Rightarrow> mem" where
  "fill_lane cv opts i r m =
     (let m1 = fold (\<lambda>c m. m(r + c := cv (fill opts) m)) [0..o_nchannels opts - 1] m
      in case alpha opts of
           None \<Rightarrow> m1
         | Some a \<Rightarrow> m1(vr_at a i := cv (fill opts) m1))"

definition texture_missing ::
  "(VaryingRef \<Rightarrow> mem \<Rightarrow> real) \<Rightarrow> TextureOptions \<Rightarrow> (int \<Rightarrow> bool) \<Rightarrow> int \<Rightarrow> int \<Rightarrow> int
     \<Rightarrow> mem \<Rightarrow> mem" where
  "texture_missing cv opts runflags firstactive lastactive result m =
     snd (fold (\<lambda>i (r, m). (r + o_nchannels opts,
                             if runflags i then fill_lane cv opts i r m else m))
               [firstactive..lastactive] (result, m))"

text \<open>The two fill loops of \<^verbatim>\<open>texture\<close> for a file that was found.\<close>

definition fill_missing_channels ::
  "TextureOptions \<Rightarrow> (int \<Rightarrow> bool) \<Rightarrow> int \<Rightarrow> int \<Rightarrow> int \<Rightarrow> mem \<Rightarrow> mem" where
  "fill_missing_channels opts runflags firstactive lastactive result m =
     fold (\<lambda>i m. if runflags i
                 then (let f = m (vr_at (fill opts) i)
                       in fold (\<lambda>c m. m(result + i * o_nchannels opts + c := f))
                               [actualchannels opts..o_nchannels opts - 1] m)
                 else m)
          [firstactive..lastactive] m"

definition fill_alpha :: "VaryingRef \<Rightarrow> TextureOptions \<Rightarrow> int \<Rightarrow> int \<Rightarrow> mem \<Rightarrow> mem" where
  "fill_alpha a opts firstactive lastactive m =
     fold (\<lambda>i m. m(vr_at a i := m (vr_at (fill opts) i))) [firstactive..lastactive] m"

definition data_at :: "real list \<Rightarrow> int \<Rightarrow> real option" where
  "data_at xs k = (if 0 \<le> k \<and> k < int (length xs) then Some (xs ! nat k) else None)"

fun copy_channels :: "real list \<Rightarrow> int \<Rightarrow> int \<Rightarrow> int list \<Rightarrow> mem \<Rightarrow> fault + mem" where
  "copy_channels data src dst [] m = Inr m"
| "copy_channels data src dst (c # cs) m =
     (case data_at data (src + c) of
        None \<Rightarrow> Inl OutOfBounds
      | Some v \<Rightarrow> copy_channels data src dst cs (m(dst + c := v)))"

text \<open>
  The texel coordinate of \<^verbatim>\<open>texture_lookup\<close>:
  \<^verbatim>\<open>float s = _s[index] * spec.width; s -= 0.5f; floorfrac (s, &sint);\<close>
  The int \<^verbatim>\<open>spec.width\<close> is converted to a float, the product and the difference are
  floats; \<open>fl\<close> gives the float that a real number is rounded to.
  Modelled from the spec: \<^verbatim>\<open>floorfrac\<close>, declared in fmath.h, which is not among the
  sources, splits its argument into an integer and a fractional part; the integer it
  stores is the floor. The fractional parts are not used by the code.
\<close>

definition texel_coord :: "(real \<Rightarrow> real) \<Rightarrow> real \<Rightarrow> int \<Rightarrow> int" where
  "texel_coord fl x n = \<lfloor>fl (fl (x * fl (of_int n)) - 1 / 2)\<rfloor>"

text \<open>
  The id of the tile that holds the texel \<open>(sint, tint)\<close> of level 0, and the offset of
  the texel within that tile, in pixels.
\<close>

definition lookup_tile :: "string \<Rightarrow> ImageIOFormatSpec \<Rightarrow> int \<Rightarrow> int \<Rightarrow> TileID" where
  "lookup_tile filename spec sint tint =
     (let tile_s = sint AND (tile_width spec - 1);
          tile_t = tint AND (tile_height spec - 1)
      in \<lparr>tid_file = filename, tid_level = 0, tid_x = sint - tile_s, tid_y = tint - tile_t,
          tid_z = 0\<rparr>)"

definition lookup_offset :: "ImageIOFormatSpec \<Rightarrow> int \<Rightarrow> int \<Rightarrow> int" where
  "lookup_offset spec sint tint =
     (let tile_s = sint AND (tile_width spec - 1);
          tile_t = tint AND (tile_height spec - 1)
      in tile_t * tile_width spec + tile_s)"

text \<open>
  \<^verbatim>\<open>texture_lookup\<close>. The file is the registry entry of \<open>filename\<close>. The pointer
  \<^verbatim>\<open>result\<close> handed in is moved by \<^verbatim>\<open>index * nchannels\<close> first; the lookup point is
  written to the first two cells; a point outside the texture sets the first cell to
  1 and returns; otherwise the one texel at the texel coordinate is copied from its
  tile.
\<close>

definition texture_lookup ::
  "(real \<Rightarrow> real) \<Rightarrow> (string \<Rightarrow> probe) \<Rightarrow> string \<Rightarrow> TextureOptions \<Rightarrow> int \<Rightarrow> VaryingRef
     \<Rightarrow> VaryingRef \<Rightarrow> int
     \<Rightarrow> mem \<times> TextureSystemImpl \<Rightarrow> fault + (mem \<times> TextureSystemImpl)" where
  "texture_lookup fl disk filename opts index s_ref t_ref result st =
     (case st of (m, sys) \<Rightarrow>
        (let r = result + index * o_nchannels opts;
             m1 = m(r := m (vr_at s_ref index));
             m2 = m1(r + 1 := m1 (vr_at t_ref index))
         in case map_of (m_texturefiles sys) filename of
              None \<Rightarrow> Inl DanglingReference
            | Some tf \<Rightarrow>
                (case m_spec tf of
                   [] \<Rightarrow> Inl OutOfBounds
                 | spec # _ \<Rightarrow>
                     (let sint = texel_coord fl (m2 (vr_at s_ref index)) (width spec);
                          tint = texel_coord fl (m2 (vr_at t_ref index)) (height spec)
                      in if sint < 0 \<or> sint \<ge> width spec \<or> tint < 0 \<or> tint \<ge> height spec
                         then Inr (m2(r := 1), sys)
                         else
                           (case find_tile disk (lookup_tile filename spec sint tint) sys of
                              Inl e \<Rightarrow> Inl e
                            | Inr (tile, sys') \<Rightarrow>
                                (let src = lookup_offset spec sint tint * nchannels spec
                                             + firstchannel opts
                                 in case copy_channels (m_texels tile) src r
                                           [0..actualchannels opts - 1] m2 of
                                      Inl e \<Rightarrow> Inl e
                                    | Inr m3 \<Rightarrow>
                                        (case alpha opts of
                                           None \<Rightarrow> Inr (m3, sys')
                                         | Some a \<Rightarrow>
                                             (case data_at (m_texels tile)
                                                     (src + actualchannels opts) of
                                                None \<Rightarrow> Inl OutOfBounds
                                              | Some v \<Rightarrow>
                                                  Inr (m3(vr_at a index := v), sys')))))))))"

text \<open>The loop of \<^verbatim>\<open>texture\<close> over the lanes, calling \<^verbatim>\<open>texture_lookup\<close> for the active ones.\<close>

fun texture_lanes ::
  "(real \<Rightarrow> real) \<Rightarrow> (string \<Rightarrow> probe) \<Rightarrow> string \<Rightarrow> TextureOptions \<Rightarrow> (int \<Rightarrow> bool)
     \<Rightarrow> VaryingRef \<Rightarrow> VaryingRef
     \<Rightarrow> int \<Rightarrow> int list \<Rightarrow> mem \<times> TextureSystemImpl \<Rightarrow> fault + (mem \<times> TextureSystemImpl)" where
  "texture_lanes fl disk filename opts runflags s_ref t_ref result [] st = Inr st"
| "texture_lanes fl disk filename opts runflags s_ref t_ref result (i # lanes) st =
     (if runflags i
      then (case texture_lookup fl disk filename opts i s_ref t_ref
                   (result + i * o_nchannels opts) st of
              Inl e \<Rightarrow> Inl e
            | Inr st' \<Rightarrow>
                texture_lanes fl disk filename opts runflags s_ref t_ref result lanes st')
      else texture_lanes fl disk filename opts runflags s_ref t_ref result lanes st)"

text \<open>The part of \<^verbatim>\<open>texture\<close> after the file was found not to be broken.\<close>

definition texture_resolved ::
  "(real \<Rightarrow> real) \<Rightarrow> (string \<Rightarrow> probe) \<Rightarrow> string \<Rightarrow> TextureFile \<Rightarrow> TextureOptions \<Rightarrow> (int \<Rightarrow> bool) \<Rightarrow> int \<Rightarrow> int
     \<Rightarrow> VaryingRef \<Rightarrow> VaryingRef \<Rightarrow> int \<Rightarrow> mem \<times> TextureSystemImpl
     \<Rightarrow> fault + (TextureOptions \<times> mem \<times> TextureSystemImpl)" where
  "texture_resolved fl disk filename tf opts runflags firstactive lastactive s_ref t_ref result
      st =
     (case st of (m, sys) \<Rightarrow>
        (case m_spec tf of
           [] \<Rightarrow> Inl OutOfBounds
         | spec # _ \<Rightarrow>
             (let o1 = (if swrap opts = WrapDefault then opts\<lparr>swrap := m_swrap tf\<rparr> else opts);
                  o2 = (if twrap o1 = WrapDefault then o1\<lparr>twrap := m_twrap tf\<rparr> else o1);
                  o3 = o2\<lparr>actualchannels :=
                            Imath_clamp (nchannels spec - firstchannel o2) 0 (o_nchannels o2)\<rparr>;
                  m1 = (if actualchannels o3 < o_nchannels o3
                        then fill_missing_channels o3 runflags firstactive lastactive result m
                        else m);
                  fill_a = (alpha o3 \<noteq> None \<and> actualchannels o3 + 1 < o_nchannels o3);
                  m2 = (case alpha o3 of
                          Some a \<Rightarrow> if fill_a then fill_alpha a o3 firstactive lastactive m1
                                    else m1
                        | None \<Rightarrow> m1);
                  o4 = (if fill_a then o3\<lparr>alpha := None\<rparr> else o3)
              in if actualchannels o4 < 1 then Inr (o4, m2, sys)
                 else (case texture_lanes fl disk filename o4 runflags s_ref t_ref result
                              [firstactive..lastactive] (m2, sys) of
                         Inl e \<Rightarrow> Inl e
                       | Inr (m3, sys') \<Rightarrow> Inr (o4, m3, sys')))))"

text \<open>
  \<^verbatim>\<open>texture\<close>. The options are passed by reference: the record returned is the
  caller's options object after the call.
\<close>

definition texture ::
  "nat \<Rightarrow> (string \<Rightarrow> probe) \<Rightarrow> (VaryingRef \<Rightarrow> mem \<Rightarrow> real) \<Rightarrow> (real \<Rightarrow> real) \<Rightarrow> string
     \<Rightarrow> TextureOptions
     \<Rightarrow> (int \<Rightarrow> bool) \<Rightarrow> int \<Rightarrow> int \<Rightarrow> VaryingRef \<Rightarrow> VaryingRef \<Rightarrow> int
     \<Rightarrow> mem \<times> TextureSystemImpl
     \<Rightarrow> (fault + (TextureOptions \<times> mem \<times> TextureSystemImpl)) option" where
  "texture fuel disk cv fl filename opts runflags firstactive lastactive s_ref t_ref result st =
     (case st of (m, sys) \<Rightarrow>
        (case find_texturefile fuel disk filename sys of
           None \<Rightarrow> None
         | Some (Inl e) \<Rightarrow> Some (Inl e)
         | Some (Inr sys1) \<Rightarrow>
             (case map_of (m_texturefiles sys1) filename of
                None \<Rightarrow>
                  Some (Inr (opts, texture_missing cv opts runflags firstactive lastactive
                                     result m, sys1))
              | Some tf \<Rightarrow>
                  if m_broken tf
                  then Some (Inr (opts, texture_missing cv opts runflags firstactive lastactive
                                          result m, sys1))
                  else Some (texture_resolved fl disk filename tf opts runflags firstactive
                               lastactive s_ref t_ref result (m, sys1)))))"

subsection \<open>Sequences of operations on one file\<close>

text \<open>
  The three operations of a \<^verbatim>\<open>TextureFile\<close> after its construction, each with what the
  disk offers at that moment, and a run of them, which stops at the first fault.
\<close>

datatype file_op = OpOpen probe | OpReadTile probe int int int int | OpRelease

fun file_step :: "file_op \<Rightarrow> TextureFile \<times> int \<Rightarrow> fault + (TextureFile \<times> int)" where
  "file_step (OpOpen pr) st = open_tf pr st"
| "file_step (OpReadTile pr level x y z) st =
     (case read_tile pr level x y z st of
        Inl e \<Rightarrow> Inl e
      | Inr (res, tf, nopen) \<Rightarrow> Inr (tf, nopen))"
| "file_step OpRelease st = Inr (release st)"

fun run_file_ops :: "file_op list \<Rightarrow> TextureFile \<times> int \<Rightarrow> fault + (TextureFile \<times> int)" where
  "run_file_ops [] st = Inr st"
| "run_file_ops (p # ps) st =
     (case file_step p st of Inl e \<Rightarrow> Inl e | Inr st' \<Rightarrow> run_file_ops ps st')"

definition in_int32 :: "int \<Rightarrow> bool" where
  "in_int32 x = (- (2 ^ 31) \<le> x \<and> x < 2 ^ 31)"

text \<open>The value of a memory cell after a call of \<^verbatim>\<open>texture\<close> that returned.\<close>

definition cell_after ::
  "int \<Rightarrow> (fault + (TextureOptions \<times> mem \<times> TextureSystemImpl)) option \<Rightarrow> real option" where
  "cell_after a res = (case res of Some (Inr (opts, m, sys)) \<Rightarrow> Some (m a) | _ \<Rightarrow> None)"

text \<open>The caller's options object after a call of \<^verbatim>\<open>texture\<close> that returned.\<close>

definition options_after ::
  "(fault + (TextureOptions \<times> mem \<times> TextureSystemImpl)) option \<Rightarrow> TextureOptions option" where
  "options_after res = (case res of Some (Inr (opts, m, sys)) \<Rightarrow> Some opts | _ \<Rightarrow> None)"

subsection \<open>Single-precision rounding\<close>

text \<open>
  The rounding of a real number to an IEEE single-precision float, to nearest with
  ties to even, for \<open>fl\<close>: \<open>binade\<close> finds the exponent \<open>e\<close> with
  \<open>2 ^ e \<le> x < 2 ^ (e + 1)\<close> by halving or doubling (the fuel bounds the search), and
  the number is rounded to a multiple of \<open>2 ^ (e - 23)\<close>. It is the float arithmetic of
  the code for results in the normal range, between \<open>2 ^ - 126\<close> and \<open>2 ^ 128\<close> in
  magnitude; it leaves out subnormals, infinities and NaN.
\<close>

fun binade :: "nat \<Rightarrow> real \<Rightarrow> int" where
  "binade 0 x = 0"
| "binade (Suc k) x =
     (if 2 \<le> x then binade k (x / 2) + 1
      else if x < 1 then binade k (x * 2) - 1
      else 0)"

definition pow2 :: "int \<Rightarrow> real" where
  "pow2 e = (if 0 \<le> e then 2 ^ nat e else 1 / 2 ^ nat (- e))"

definition round_even :: "real \<Rightarrow> int" where
  "round_even q =
     (let f = \<lfloor>q\<rfloor>; d = q - of_int f
      in if d < 1 / 2 then f
         else if 1 / 2 < d then f + 1
         else if even f then f else f + 1)"

definition round_f32 :: "real \<Rightarrow> real" where
  "round_f32 x =
     (if x = 0 then 0
      else (let u = pow2 (binade 300 \<bar>x\<bar> - 23) in of_int (round_even (x / u)) * u))"

subsection \<open>Concrete inputs\<close>

text \<open>
  A 2 x 2 one-channel texture in a single 2 x 2 tile with the texels 0 1 / 1 0, which
  carries an int attribute and a float attribute; a disk on which every name but
  \<^verbatim>\<open>missing.tx\<close> is that image; the file record after its first open.
\<close>

definition ex_spec :: ImageIOFormatSpec where
  "ex_spec = \<lparr>width = 2, height = 2, full_width = 2, full_height = 2,
              tile_width = 2, tile_height = 2, tile_depth = 1, nchannels = 1,
              extra_attribs =
                [\<lparr>pname = ''bitspersample'', ptype = PT_INT, nvalues = 1,
                  pdata = [IntVal 8]\<rparr>,
                 \<lparr>pname = ''gamma'', ptype = PT_FLOAT, nvalues = 1,
                  pdata = [FloatVal (11 / 5)]\<rparr>]\<rparr>"

definition ex_image :: image where
  "ex_image = \<lparr>subimage0 = ex_spec, more_subimages = [], format_name = ''tiff'',
               tiles = [((0, 0, 0, 0), [0, 1, 1, 0])]\<rparr>"

definition ex_disk :: "string \<Rightarrow> probe" where
  "ex_disk filename = (if filename = ''missing.tx'' then NoReader else Opens ex_image)"

definition ex_open_tf :: "string \<Rightarrow> bool \<Rightarrow> TextureFile" where
  "ex_open_tf filename used =
     \<lparr>m_filename = filename, m_used = used, m_broken = False,
      m_texformat = TexFormatTexture, m_swrap = WrapBlack, m_twrap = WrapBlack,
      m_cubelayout = CubeUnknown, m_y_up = False, m_spec = [ex_spec],
      m_input = Some \<lparr>img = ex_image, current_subimage = 0\<rparr>\<rparr>"

text \<open>The same file closed by two calls of \<^verbatim>\<open>release\<close>, and after a reopen that failed.\<close>

definition ex_closed_tf :: "string \<Rightarrow> TextureFile" where
  "ex_closed_tf filename = (ex_open_tf filename False)\<lparr>m_input := None\<rparr>"

definition ex_dead_tf :: "string \<Rightarrow> TextureFile" where
  "ex_dead_tf filename = (ex_closed_tf filename)\<lparr>m_broken := True\<rparr>"

text \<open>The record of a file for which no reader was found.\<close>

definition ex_broken_tf :: "string \<Rightarrow> TextureFile" where
  "ex_broken_tf filename = (TextureFile_init filename)\<lparr>m_broken := True\<rparr>"

text \<open>Cube-face environment images: 4 x 4 faces laid out 3 x 2, and a single 4 x 4 face.\<close>

definition ex_cube_spec :: "int \<Rightarrow> int \<Rightarrow> ImageIOFormatSpec" where
  "ex_cube_spec wd ht =
     \<lparr>width = wd, height = ht, full_width = 4, full_height = 4,
      tile_width = 4, tile_height = 4, tile_depth = 1, nchannels = 1,
      extra_attribs = [\<lparr>pname = ''textureformat'', ptype = PT_STRING, nvalues = 1,
                        pdata = [StringVal ''CubeFace Environment'']\<rparr>]\<rparr>"

definition ex_cube_image :: "int \<Rightarrow> int \<Rightarrow> image" where
  "ex_cube_image wd ht =
     \<lparr>subimage0 = ex_cube_spec wd ht, more_subimages = [], format_name = ''tiff'',
      tiles = []\<rparr>"

definition ex_cube_tf :: "int \<Rightarrow> int \<Rightarrow> CubeLayout \<Rightarrow> TextureFile" where
  "ex_cube_tf wd ht layout =
     \<lparr>m_filename = ''env.tx'', m_used = True, m_broken = False,
      m_texformat = TexFormatCubeFaceEnv, m_swrap = WrapBlack, m_twrap = WrapBlack,
      m_cubelayout = layout, m_y_up = False, m_spec = [ex_cube_spec wd ht],
      m_input = Some \<lparr>img = ex_cube_image wd ht, current_subimage = 0\<rparr>\<rparr>"

text \<open>Systems: a fresh one with given budgets, and registries holding the example files.\<close>

definition ex_sys :: "int \<Rightarrow> int \<Rightarrow> TextureSystemImpl" where
  "ex_sys max_files max_mb =
     TextureSystemImpl_new\<lparr>m_max_open_files := max_files, m_max_memory_MB := max_mb\<rparr>"

definition ex_one_file :: "int \<Rightarrow> TextureSystemImpl" where
  "ex_one_file max_files =
     \<lparr>m_texturefiles = [(''a.tx'', ex_open_tf ''a.tx'' True)],
      m_file_sweep = None, m_open_files = 1, m_max_open_files = max_files,
      m_max_memory_MB = 50, tilecache = []\<rparr>"

definition ex_stuck :: TextureSystemImpl where
  "ex_stuck =
     \<lparr>m_texturefiles = [(''a.tx'', ex_closed_tf ''a.tx''),
                        (''b.tx'', ex_open_tf ''b.tx'' True)],
      m_file_sweep = Some ''a.tx'', m_open_files = 1, m_max_open_files = 1,
      m_max_memory_MB = 50, tilecache = []\<rparr>"

definition ex_missing_sys :: TextureSystemImpl where
  "ex_missing_sys =
     \<lparr>m_texturefiles = [(''missing.tx'', ex_broken_tf ''missing.tx'')],
      m_file_sweep = None, m_open_files = 0, m_max_open_files = 100,
      m_max_memory_MB = 50, tilecache = []\<rparr>"

definition ex_tid :: "string \<Rightarrow> TileID" where
  "ex_tid filename =
     \<lparr>tid_file = filename, tid_level = 0, tid_x = 0, tid_y = 0, tid_z = 0\<rparr>"

definition ex_tile :: "string \<Rightarrow> Tile" where
  "ex_tile filename =
     \<lparr>m_id = ex_tid filename, m_valid = True, m_used_tile = True,
      m_texels = [0, 1, 1, 0]\<rparr>"

definition ex_two_files :: "(TileID \<times> Tile) list \<Rightarrow> TextureSystemImpl" where
  "ex_two_files cache =
     \<lparr>m_texturefiles = [(''a.tx'', ex_open_tf ''a.tx'' True),
                        (''b.tx'', ex_open_tf ''b.tx'' True)],
      m_file_sweep = None, m_open_files = 2, m_max_open_files = 100,
      m_max_memory_MB = 0, tilecache = cache\<rparr>"

text \<open>
  Sampler inputs: a memory with the lookup point in cells 0 and 1, the fill value in
  cell 2 and zeros elsewhere; uniform references to single cells; one-channel options;
  the run flags with just lane \<open>k\<close> on; and the dereference of a reference's base
  address as the conversion of a reference to a float.
\<close>

definition ex_mem :: "real \<Rightarrow> real \<Rightarrow> real \<Rightarrow> mem" where
  "ex_mem sv tv fv a = (if a = 0 then sv else if a = 1 then tv else if a = 2 then fv else 0)"

definition ex_ref :: "int \<Rightarrow> VaryingRef" where
  "ex_ref a = \<lparr>vr_ptr = a, vr_step = 0\<rparr>"

definition ex_opts :: "int \<Rightarrow> Wrap \<Rightarrow> Wrap \<Rightarrow> VaryingRef option \<Rightarrow> int \<Rightarrow> TextureOptions" where
  "ex_opts n sw tw al actual =
     \<lparr>firstchannel = 0, o_nchannels = n, swrap = sw, twrap = tw,
      fill = ex_ref 2, alpha = al, actualchannels = actual\<rparr>"

definition lane_is :: "int \<Rightarrow> int \<Rightarrow> bool" where
  "lane_is k i = (i = k)"

definition ex_cv :: "VaryingRef \<Rightarrow> mem \<Rightarrow> real" where
  "ex_cv v m = m (vr_ptr v)"

text \<open>The floats nearest to -0.1, 0.7 and 0.02.\<close>

definition f32_minus_tenth :: real where
  "f32_minus_tenth = - 13421773 / 134217728"

definition f32_seven_tenths :: real where
  "f32_seven_tenths = 11744051 / 16777216"

definition f32_fiftieth :: real where
  "f32_fiftieth = 5368709 / 268435456"


section \<open>Properties\<close>

subsection \<open>Shared lemmas\<close>

lemmas ex_defs =
  ex_spec_def ex_image_def ex_disk_def ex_open_tf_def ex_closed_tf_def ex_dead_tf_def
  ex_broken_tf_def ex_sys_def ex_one_file_def ex_stuck_def ex_missing_sys_def ex_tid_def
  ex_tile_def ex_two_files_def ex_ref_def ex_opts_def lane_is_def ex_cv_def
  TextureSystemImpl_new_def TextureFile_init_def

lemmas file_defs =
  TextureFile_new_def open_tf_def use_def release_def opened_def read_tile_def
  seek_subimage_def reader_read_tile_def first_open_fields_def decode_texformat_def
  find_attribute_def texture_format_name_def

lemmas sampler_defs =
  texture_def find_texturefile_def texture_resolved_def texture_lookup_def
  texture_missing_def fill_lane_def fill_missing_channels_def fill_alpha_def
  Imath_clamp_def vr_at_def find_tile_def Tile_new_def tile_pixels_def data_at_def
  lookup_tile_def lookup_offset_def cell_after_def Let_def upto_rec1

lemmas f32_defs =
  texel_coord_def round_f32_def round_even_def pow2_def eval_nat_numeral
  f32_minus_tenth_def f32_seven_tenths_def f32_fiftieth_def

lemma first_open_fields_flags [simp]:
  "m_broken (first_open_fields fmt tf) = m_broken tf"
  "m_input (first_open_fields fmt tf) = m_input tf"
  by (simp_all add: first_open_fields_def Let_def split: option.split list.split pvalue.split)

lemma first_open_fields_cube:
  "m_texformat (first_open_fields fmt tf) = decode_texformat (hd (m_spec tf))"
  "m_cubelayout (first_open_fields fmt tf) =
     (if decode_texformat (hd (m_spec tf)) = TexFormatCubeFaceEnv
      then cube_layout_of (hd (m_spec tf)) else m_cubelayout tf)"
  by (simp_all add: first_open_fields_def Let_def split: option.split list.split pvalue.split)

lemma new_example_file:
  "TextureFile_new (Opens ex_image) f n = Inr (ex_open_tf f True, n + 1)"
  by (simp add: file_defs ex_defs)

lemma update_absent: "map_of xs k = None \<Longrightarrow> AList.update k v xs = xs @ [(k, v)]"
  by (induction xs) (auto split: if_splits)

lemma Tile_new_cache:
  "Tile_new disk tid s = Inr (tile, s1) \<Longrightarrow>
     tilecache s1 = tilecache s \<and> m_max_memory_MB s1 = m_max_memory_MB s"
  by (auto simp: Tile_new_def Let_def split: option.splits list.splits sum.splits)


subsection \<open>The tile cache has no budget check (C1)\<close>

text \<open>
  C1, as stated, at a concrete input. The budget is \<^verbatim>\<open>max_memory_MB = 0\<close>. A caller
  looks up the tile of \<^verbatim>\<open>a.tx\<close>, drops the reference, and looks up the tile of
  \<^verbatim>\<open>b.tx\<close>, which it still holds. Both tiles are in the cache, and the tile of
  \<^verbatim>\<open>a.tx\<close>, 16 bytes referenced by the cache only, exceeds the budget of 0 bytes.
\<close>

theorem find_tile_budget_counterexample:
  "find_tiles ex_disk [ex_tid ''a.tx'', ex_tid ''b.tx''] (ex_two_files []) =
     Inr (ex_two_files [(ex_tid ''a.tx'', ex_tile ''a.tx''), (ex_tid ''b.tx'', ex_tile ''b.tx'')])
   \<and> cache_only_bytes [ex_tid ''b.tx'']
        (ex_two_files [(ex_tid ''a.tx'', ex_tile ''a.tx''), (ex_tid ''b.tx'', ex_tile ''b.tx'')])
      = 16
   \<and> \<not> cache_only_bytes [ex_tid ''b.tx'']
          (ex_two_files [(ex_tid ''a.tx'', ex_tile ''a.tx''), (ex_tid ''b.tx'', ex_tile ''b.tx'')])
        \<le> m_max_memory_MB
            (ex_two_files [(ex_tid ''a.tx'', ex_tile ''a.tx''), (ex_tid ''b.tx'', ex_tile ''b.tx'')])
          * 2 ^ 20"
  by (simp add: find_tile_def Tile_new_def tile_pixels_def file_defs ex_defs
        cache_only_bytes_def tile_bytes_def)

text \<open>
  C1, amended. \<^verbatim>\<open>find_tile\<close> holds no memory check and never drops an entry: after a
  call that returns, the cache maps the requested id to the returned tile and every
  other id to what it mapped to before, \<^verbatim>\<open>max_memory_MB\<close> is unchanged, and the bytes
  of the cached tiles have grown by the size of the new tile on a miss (and not at all
  on a hit), whatever the budget is.
\<close>

theorem find_tile_never_evicts:
  assumes "find_tile disk tid s = Inr (tile, s')"
  shows "map_of (tilecache s') = (map_of (tilecache s))(tid \<mapsto> tile) \<and>
         m_max_memory_MB s' = m_max_memory_MB s \<and>
         cache_bytes s' =
           cache_bytes s + (if map_of (tilecache s) tid = None then tile_bytes tile else 0)"
proof (cases "map_of (tilecache s) tid")
  case None
  with assms obtain s1 where tn: "Tile_new disk tid s = Inr (tile, s1)"
    and s': "s' = s1\<lparr>tilecache := AList.update tid tile (tilecache s1)\<rparr>"
    by (auto simp: find_tile_def split: sum.splits)
  from Tile_new_cache[OF tn] have c: "tilecache s1 = tilecache s"
    and b: "m_max_memory_MB s1 = m_max_memory_MB s" by simp_all
  have "map_of (tilecache s') = (map_of (tilecache s))(tid \<mapsto> tile)"
    using s' c by (simp add: update_conv')
  moreover have "cache_bytes s' = cache_bytes s + tile_bytes tile"
    using None s' c by (simp add: cache_bytes_def update_absent)
  ultimately show ?thesis using None s' b by simp
next
  case (Some t)
  with assms have "tile = t" "s' = s" by (simp_all add: find_tile_def)
  with Some show ?thesis by (auto simp: fun_upd_idem_iff)
qed

text \<open>The amended C1 at the first lookup of the scenario above: a miss that adds 16 bytes.\<close>

theorem find_tile_never_evicts_witness:
  "find_tile ex_disk (ex_tid ''a.tx'') (ex_two_files []) =
     Inr (ex_tile ''a.tx'', ex_two_files [(ex_tid ''a.tx'', ex_tile ''a.tx'')])
   \<and> m_max_memory_MB (ex_two_files [(ex_tid ''a.tx'', ex_tile ''a.tx'')]) = 0
   \<and> cache_bytes (ex_two_files [(ex_tid ''a.tx'', ex_tile ''a.tx'')]) =
       cache_bytes (ex_two_files []) + 16"
proof -
  have h: "find_tile ex_disk (ex_tid ''a.tx'') (ex_two_files []) =
             Inr (ex_tile ''a.tx'', ex_two_files [(ex_tid ''a.tx'', ex_tile ''a.tx'')])"
    by (simp add: find_tile_def Tile_new_def tile_pixels_def file_defs ex_defs)
  have t: "tile_bytes (ex_tile ''a.tx'') = 16" by (simp add: tile_bytes_def ex_tile_def)
  have e: "map_of (tilecache (ex_two_files [])) (ex_tid ''a.tx'') = None"
    by (simp add: ex_two_files_def)
  show ?thesis using find_tile_never_evicts[OF h] h t e
    by (simp add: ex_two_files_def)
qed

subsection \<open>The sweep of check_max_files (C2)\<close>

lemma sweep_step_cursor_fixed:
  "sweep_step s = Inr s' \<Longrightarrow> m_file_sweep s = Some k \<Longrightarrow> m_file_sweep s' = Some k"
  by (auto simp: sweep_step_def Let_def split: option.splits prod.splits)

lemma sweep_step_stuck: "sweep_step ex_stuck = Inr ex_stuck"
  by (simp add: sweep_step_def release_def opened_def ex_defs)

lemma check_max_files_stuck: "check_max_files fuel ex_stuck = None"
proof (induction fuel)
  case 0
  show ?case by (simp add: ex_stuck_def)
next
  case (Suc fuel)
  have "m_max_open_files ex_stuck \<le> m_open_files ex_stuck" by (simp add: ex_stuck_def)
  then show ?case using Suc sweep_step_stuck by simp
qed

text \<open>
  C2 at a failing input. With \<^verbatim>\<open>max_open_files = 1\<close>, the lookups of \<^verbatim>\<open>a.tx\<close> and then
  \<^verbatim>\<open>b.tx\<close> in a fresh system return the registry \<open>ex_stuck\<close>: the sweep has closed
  \<^verbatim>\<open>a.tx\<close> and still points to it, \<^verbatim>\<open>b.tx\<close> is open, and the count of open files is 1.
  It holds an open file and \<^verbatim>\<open>max_open_files \<ge> 1\<close>. From it the loop of
  \<^verbatim>\<open>check_max_files\<close> is still running after any number of iterations: each one calls
  \<^verbatim>\<open>release\<close> on the closed \<^verbatim>\<open>a.tx\<close> and changes nothing. So the lookup of a third
  file never returns.
\<close>

theorem check_max_files_never_returns:
  "find_texturefile 0 ex_disk ''a.tx'' (ex_sys 1 50) = Some (Inr (ex_one_file 1))
   \<and> find_texturefile 2 ex_disk ''b.tx'' (ex_one_file 1) = Some (Inr ex_stuck)
   \<and> map_of (m_texturefiles ex_stuck) ''b.tx'' = Some (ex_open_tf ''b.tx'' True)
   \<and> opened (ex_open_tf ''b.tx'' True)
   \<and> m_max_open_files ex_stuck \<ge> 1
   \<and> check_max_files fuel ex_stuck = None
   \<and> find_texturefile fuel ex_disk ''c.tx'' ex_stuck = None"
proof -
  have 1: "find_texturefile 0 ex_disk ''a.tx'' (ex_sys 1 50) = Some (Inr (ex_one_file 1))"
    by (simp add: find_texturefile_def new_example_file ex_sys_def ex_disk_def
          TextureSystemImpl_new_def ex_one_file_def)
       (simp add: ex_open_tf_def use_def)
  have 2: "find_texturefile 2 ex_disk ''b.tx'' (ex_one_file 1) = Some (Inr ex_stuck)"
    by (simp add: find_texturefile_def new_example_file ex_disk_def ex_one_file_def
          numeral_2_eq_2 sweep_step_def map_begin_def release_def opened_def)
       (simp add: ex_open_tf_def ex_closed_tf_def ex_stuck_def use_def)
  have 3: "map_of (m_texturefiles ex_stuck) ''b.tx'' = Some (ex_open_tf ''b.tx'' True)"
    "opened (ex_open_tf ''b.tx'' True)" "m_max_open_files ex_stuck \<ge> 1"
    by (simp_all add: ex_stuck_def opened_def ex_open_tf_def)
  have 4: "find_texturefile fuel ex_disk ''c.tx'' ex_stuck = None"
    using check_max_files_stuck[of fuel]
    by (simp add: find_texturefile_def) (simp add: ex_stuck_def)
  show ?thesis using 1 2 3 4 check_max_files_stuck by simp
qed

subsection \<open>The fill loop for a missing or broken file (C3)\<close>

text \<open>
  C3 at a failing input: a fresh system, the file \<^verbatim>\<open>missing.tx\<close> for which no reader
  exists, one channel, no alpha, and the batch window \<^verbatim>\<open>firstactive = lastactive = 1\<close>
  with lane 1 on. The result array starts at address 10, so lane 1 owns cell 11. The
  call writes the fill value to cell 10, the cell of lane 0, which is outside the
  window, and leaves cell 11 as it was: the loop starts its moving pointer at
  \<^verbatim>\<open>result\<close>, not at \<^verbatim>\<open>result + firstactive * nchannels\<close>. This holds for any memory
  and any conversion \<open>cv\<close> of the fill reference (and any float rounding \<open>fl\<close>, which this
  path does not use).
\<close>

theorem texture_missing_file_shifts_lanes:
  "texture 0 ex_disk cv fl ''missing.tx'' (ex_opts 1 WrapDefault WrapDefault None 0)
      (lane_is 1) 1 1 s_ref t_ref 10 (m, ex_sys 100 50) =
     Some (Inr (ex_opts 1 WrapDefault WrapDefault None 0,
                m(10 := cv (ex_ref 2) m),
                ex_missing_sys))
   \<and> (m(10 := cv (ex_ref 2) m)) 11 = m 11"
  by (simp add: texture_def find_texturefile_def texture_missing_def fill_lane_def
        TextureFile_new_def open_tf_def use_def ex_defs)

subsection \<open>Lookups outside the texture (C4)\<close>

lemma texel_coord_single_precision:
  "texel_coord round_f32 (1 / 2) 2 = 0"
  "texel_coord round_f32 f32_minus_tenth 2 = - 1"
  "texel_coord round_f32 f32_fiftieth 25 = 0"
  "\<lfloor>f32_fiftieth * 25 - 1 / 2\<rfloor> = - 1"
  "texel_coord round_f32 (13981013 / 16777216) 3 = 2"
  "\<lfloor>(13981013 / 16777216) * 3 - 1 / (2::real)\<rfloor> = 1"
  by (simp_all add: f32_defs)

text \<open>
  C4, as stated, at its own input: the 2 x 2 texture, wrap Black on both axes, the fill
  value 0.7, one channel, one active lane, the point (-0.1, 0.5); the floats are the
  single-precision ones, and so is the arithmetic. The first result entry (cell 10) is
  1 after the call, not the fill value.
\<close>

theorem texture_black_wrap_counterexample:
  "cell_after 10
     (texture 0 ex_disk ex_cv round_f32 ''a.tx'' (ex_opts 1 WrapBlack WrapBlack None 0)
        (lane_is 0) 0 0 (ex_ref 0) (ex_ref 1) 10
        (ex_mem f32_minus_tenth (1 / 2) f32_seven_tenths, ex_one_file 100))
     = Some 1
   \<and> cell_after 10
     (texture 0 ex_disk ex_cv round_f32 ''a.tx'' (ex_opts 1 WrapBlack WrapBlack None 0)
        (lane_is 0) 0 0 (ex_ref 0) (ex_ref 1) 10
        (ex_mem f32_minus_tenth (1 / 2) f32_seven_tenths, ex_one_file 100))
     \<noteq> Some f32_seven_tenths
   \<and> cell_after 10
     (texture 0 ex_disk ex_cv round_f32 ''a.tx'' (ex_opts 1 WrapBlack WrapBlack None 0)
        (lane_is 0) 0 0 (ex_ref 0) (ex_ref 1) 10
        (ex_mem f32_minus_tenth (1 / 2) f32_seven_tenths, ex_one_file 100))
     \<noteq> Some (7 / 10)"
  by (simp add: sampler_defs file_defs ex_defs ex_mem_def f32_defs)

text \<open>
  C4, amended. Wrap modes are not implemented. Take any wrap modes and any fill in the
  options, and any rounding \<open>fl\<close> of the float arithmetic. A lookup whose texel
  coordinate, as the code computes it from \<open>s\<close> and \<open>t\<close>, falls outside the texture
  returns with 1 in the first result entry, \<open>r\<close>, the address \<^verbatim>\<open>texture_lookup\<close> forms
  from its pointer argument and the lane index. It contributes no fill value and
  fetches no tile: the system is unchanged, and so is every memory cell other than
  \<open>r\<close> and \<open>r + 1\<close>. (\<open>s\<close> and \<open>t\<close> are not read from the cells \<open>r\<close> and \<open>r + 1\<close>.)
  Nothing is stated about the cell \<open>r + 1\<close>, nor about the pointer that \<^verbatim>\<open>texture\<close>
  hands to the lookup.
\<close>

theorem texture_lookup_outside:
  assumes "map_of (m_texturefiles sys) filename = Some tf" and "m_spec tf = spec # rest"
      and "r = result + index * o_nchannels opts"
      and "vr_at s_ref index \<notin> {r, r + 1}" and "vr_at t_ref index \<notin> {r, r + 1}"
      and "sint = texel_coord fl (m (vr_at s_ref index)) (width spec)"
      and "tint = texel_coord fl (m (vr_at t_ref index)) (height spec)"
      and "sint < 0 \<or> width spec \<le> sint \<or> tint < 0 \<or> height spec \<le> tint"
  shows "\<exists>m'. texture_lookup fl disk filename opts index s_ref t_ref result (m, sys) =
                 Inr (m', sys) \<and>
              m' r = 1 \<and> (\<forall>a. a \<noteq> r \<and> a \<noteq> r + 1 \<longrightarrow> m' a = m a)"
proof -
  let ?m' = "m(r := m (vr_at s_ref index), r + 1 := m (vr_at t_ref index), r := 1)"
  have "texture_lookup fl disk filename opts index s_ref t_ref result (m, sys) = Inr (?m', sys)"
    using assms by (auto simp: texture_lookup_def Let_def)
  moreover have "?m' r = 1" by simp
  moreover have "\<forall>a. a \<noteq> r \<and> a \<noteq> r + 1 \<longrightarrow> ?m' a = m a" by simp
  ultimately show ?thesis by blast
qed

text \<open>
  The amended C4 at the point (-0.1, 0.5) of the 2 x 2 texture, wrap Black, fill 0.7, in
  single precision: once as the lookup of lane 0 and once as the lookup of lane 1, both
  with the pointer argument 10. The texel coordinate is (-1, 0); cell 10, respectively
  cell 11, holds 1 afterwards, and the fill value is still only in cell 2.
\<close>

theorem texture_lookup_outside_witness:
  "map_of (m_texturefiles (ex_one_file 100)) ''a.tx'' = Some (ex_open_tf ''a.tx'' True)
   \<and> m_spec (ex_open_tf ''a.tx'' True) = ex_spec # []
   \<and> texel_coord round_f32 (ex_mem f32_minus_tenth (1 / 2) f32_seven_tenths (vr_at (ex_ref 0) 0))
        (width ex_spec) = - 1
   \<and> (\<exists>m'. texture_lookup round_f32 ex_disk ''a.tx'' (ex_opts 1 WrapBlack WrapBlack None 1) 0
              (ex_ref 0) (ex_ref 1) 10
              (ex_mem f32_minus_tenth (1 / 2) f32_seven_tenths, ex_one_file 100) =
            Inr (m', ex_one_file 100)
          \<and> m' 10 = 1 \<and> m' 2 = f32_seven_tenths \<and> m' 12 = 0)
   \<and> (\<exists>m'. texture_lookup round_f32 ex_disk ''a.tx'' (ex_opts 1 WrapBlack WrapBlack None 1) 1
              (ex_ref 0) (ex_ref 1) 10
              (ex_mem f32_minus_tenth (1 / 2) f32_seven_tenths, ex_one_file 100) =
            Inr (m', ex_one_file 100)
          \<and> m' 11 = 1 \<and> m' 2 = f32_seven_tenths \<and> m' 10 = 0)"
proof -
  let ?m = "ex_mem f32_minus_tenth (1 / 2) f32_seven_tenths"
  let ?o = "ex_opts 1 WrapBlack WrapBlack None 1"
  have f: "map_of (m_texturefiles (ex_one_file 100)) ''a.tx'' = Some (ex_open_tf ''a.tx'' True)"
    by (simp add: ex_one_file_def)
  have sp: "m_spec (ex_open_tf ''a.tx'' True) = ex_spec # []" by (simp add: ex_open_tf_def)
  have r0: "(10::int) = 10 + 0 * o_nchannels ?o" and r1: "(11::int) = 10 + 1 * o_nchannels ?o"
    by (simp_all add: ex_opts_def)
  have a0: "vr_at (ex_ref 0) 0 \<notin> {10, 10 + 1}" "vr_at (ex_ref 1) 0 \<notin> {10, 10 + 1}"
    and a1: "vr_at (ex_ref 0) 1 \<notin> {11, 11 + 1}" "vr_at (ex_ref 1) 1 \<notin> {11, 11 + 1}"
    by (simp_all add: vr_at_def ex_ref_def)
  have s: "(- 1) = texel_coord round_f32 (?m (vr_at (ex_ref 0) i)) (width ex_spec)"
    and t: "0 = texel_coord round_f32 (?m (vr_at (ex_ref 1) i)) (height ex_spec)" for i
    by (simp_all add: vr_at_def ex_ref_def ex_mem_def ex_spec_def f32_defs)
  have out: "(- 1 :: int) < 0 \<or> width ex_spec \<le> - 1 \<or> (0::int) < 0 \<or> height ex_spec \<le> 0"
    by simp
  have v: "?m 2 = f32_seven_tenths" "?m 12 = 0" "?m 10 = 0" by (simp_all add: ex_mem_def)
  from texture_lookup_outside[OF f sp r0 a0 s t out, of ex_disk] v
  have 0: "\<exists>m'. texture_lookup round_f32 ex_disk ''a.tx'' ?o 0 (ex_ref 0) (ex_ref 1) 10
                   (?m, ex_one_file 100) = Inr (m', ex_one_file 100)
                \<and> m' 10 = 1 \<and> m' 2 = f32_seven_tenths \<and> m' 12 = 0"
    by auto
  from texture_lookup_outside[OF f sp r1 a1 s t out, of ex_disk] v
  have 1: "\<exists>m'. texture_lookup round_f32 ex_disk ''a.tx'' ?o 1 (ex_ref 0) (ex_ref 1) 10
                   (?m, ex_one_file 100) = Inr (m', ex_one_file 100)
                \<and> m' 11 = 1 \<and> m' 2 = f32_seven_tenths \<and> m' 10 = 0"
    by auto
  show ?thesis using f sp s[of 0, symmetric] 0 1 by simp
qed

text \<open>
  An observation beside C4 and C5, on the pointer that \<^verbatim>\<open>texture\<close> hands to the lookup:
  it is \<^verbatim>\<open>result + i * nchannels\<close>, which \<^verbatim>\<open>texture_lookup\<close> advances by
  \<^verbatim>\<open>index * nchannels\<close> once more. For the batch of lane 1 alone, one channel, result
  array at 10 and the point above, the 1 lands in cell 12 and cell 11 stays 0.
\<close>

lemma texture_advances_result_twice:
  "cell_after 12
     (texture 0 ex_disk ex_cv round_f32 ''a.tx'' (ex_opts 1 WrapBlack WrapBlack None 0)
        (lane_is 1) 1 1 (ex_ref 0) (ex_ref 1) 10
        (ex_mem f32_minus_tenth (1 / 2) f32_seven_tenths, ex_one_file 100))
     = Some 1
   \<and> cell_after 11
     (texture 0 ex_disk ex_cv round_f32 ''a.tx'' (ex_opts 1 WrapBlack WrapBlack None 0)
        (lane_is 1) 1 1 (ex_ref 0) (ex_ref 1) 10
        (ex_mem f32_minus_tenth (1 / 2) f32_seven_tenths, ex_one_file 100))
     = Some 0"
  by (simp add: sampler_defs file_defs ex_defs ex_mem_def f32_defs)

subsection \<open>Lookups inside the texture (C5)\<close>





subsection \<open>The int-to-float case of gettextureinfo (C6)\<close>

text \<open>
  C6 at a failing input: the opened example file, whose spec stores \<^verbatim>\<open>bitspersample\<close> as
  one int and \<^verbatim>\<open>gamma\<close> as one float. Asking for \<^verbatim>\<open>bitspersample\<close> as a float, the case
  the comment \<^verbatim>\<open>If the real data is int but user asks for float, translate it\<close>
  announces, returns false and leaves the buffer as it was: the test reads
  \<^verbatim>\<open>p->type == PT_FLOAT && datatype.basetype == PT_INT\<close>, the two types exchanged. Asking
  for \<^verbatim>\<open>gamma\<close> as an int, a type mismatch, returns true and writes the buffer. With
  the types matching the value is copied.
\<close>

theorem gettextureinfo_int_as_float_fails:
  "gettextureinfo_file bits (ex_open_tf ''a.tx'' True) ''bitspersample''
      \<lparr>basetype = PT_FLOAT, arraylen = 1\<rparr> [FloatVal 0] = Inr (False, [FloatVal 0])
   \<and> gettextureinfo_file bits (ex_open_tf ''a.tx'' True) ''gamma''
      \<lparr>basetype = PT_INT, arraylen = 1\<rparr> [IntVal 0] =
        Inr (True, [FloatVal (of_int (bits (FloatVal (11 / 5))))])
   \<and> gettextureinfo_file bits (ex_open_tf ''a.tx'' True) ''bitspersample''
      \<lparr>basetype = PT_INT, arraylen = 1\<rparr> [IntVal 0] = Inr (True, [IntVal 8])"
  by (simp add: gettextureinfo_file_def gettextureinfo_general_def find_attribute_def
        store_def int_view_def ex_defs)

subsection \<open>read_tile on a file without a reader (C7)\<close>

lemma read_tile_reopens:
  assumes "m_input tf = None" and "\<not> m_broken tf" and "m_spec tf \<noteq> []"
  shows "read_tile (Opens im) 0 x y z (tf, n) =
           Inr (map_of (tiles im) (0, x, y, z),
                tf\<lparr>m_used := True, m_input := Some \<lparr>img = im, current_subimage = 0\<rparr>\<rparr>,
                n + 1)"
  using assms by (simp add: read_tile_def open_tf_def use_def reader_read_tile_def)

lemma read_tile_without_reader:
  assumes "m_input tf = None" and "m_broken tf \<or> pr = NoReader \<or> pr = OpenFails"
  shows "read_tile pr level x y z (tf, n) = Inl NullDeref"
  using assms by (auto simp: read_tile_def open_tf_def)

text \<open>
  C7 at failing inputs. The file \<^verbatim>\<open>missing.tx\<close>, for which no reader exists, is broken
  after its construction, and \<^verbatim>\<open>read_tile\<close> on it dereferences the empty \<^verbatim>\<open>m_input\<close>
  (even when the file has appeared on disk since). The same happens on a file that the
  sweep closed and whose reopen fails. On a file that the sweep closed and that is
  still readable, \<^verbatim>\<open>read_tile\<close> reopens it and returns the texels.
\<close>

theorem read_tile_broken_null_deref:
  "TextureFile_new NoReader ''missing.tx'' 0 = Inr (ex_broken_tf ''missing.tx'', 0)
   \<and> read_tile NoReader 0 0 0 0 (ex_broken_tf ''missing.tx'', 0) = Inl NullDeref
   \<and> read_tile (Opens ex_image) 0 0 0 0 (ex_broken_tf ''missing.tx'', 0) = Inl NullDeref
   \<and> run_file_ops [OpRelease, OpRelease] (ex_open_tf ''a.tx'' True, 1) =
       Inr (ex_closed_tf ''a.tx'', 0)
   \<and> read_tile OpenFails 0 0 0 0 (ex_closed_tf ''a.tx'', 0) = Inl NullDeref
   \<and> read_tile (Opens ex_image) 0 0 0 0 (ex_closed_tf ''a.tx'', 0) =
       Inr (Some [0, 1, 1, 0], ex_open_tf ''a.tx'' True, 1)"
  by (simp add: file_defs ex_defs)

subsection \<open>The cube layout set by the first open (C8)\<close>

lemma wrap32_id: "in_int32 x \<Longrightarrow> wrap32 x = x"
proof -
  assume "in_int32 x"
  then have "0 \<le> x + 2 ^ 31" and "x + 2 ^ 31 < 2 ^ 32"
    by (simp_all add: in_int32_def)
  then have "(x + 2 ^ 31) mod 2 ^ 32 = x + 2 ^ 31"
    by (rule mod_pos_pos_trivial)
  then show ?thesis by (simp add: wrap32_def)
qed

lemma read_subimages_hd:
  "read_subimages rd acc sp k = Inr (specs, rd') \<Longrightarrow> hd specs = hd (acc @ [sp])"
proof (induction rd acc sp k rule: read_subimages.induct)
  case (1 rd acc sp k)
  show ?case
  proof (cases "seek_subimage (k + 1) rd")
    case (Pair r rd1)
    show ?thesis
    proof (cases r)
      case None
      with Pair "1.prems" show ?thesis
        by (subst (asm) read_subimages.simps) (auto simp: Let_def split: if_splits)
    next
      case (Some sp')
      with Pair "1.prems" have ok: "nchannels sp = nchannels (hd (acc @ [sp]))"
        and rec: "read_subimages rd1 (acc @ [sp]) sp' (k + 1) = Inr (specs, rd')"
        by (subst (asm) read_subimages.simps, auto simp: Let_def split: if_splits)+
      have "hd specs = hd ((acc @ [sp]) @ [sp'])"
        using "1.IH"[OF refl refl _ _ _ rec] ok Pair Some by simp
      then show ?thesis by (cases acc) simp_all
    qed
  qed
qed

lemma open_tf_first:
  assumes "open_tf (Opens im) (tf, n) = Inr (tf', n')"
      and "m_input tf = None" "\<not> m_broken tf" "m_spec tf = []"
  shows "m_texformat tf' = decode_texformat (subimage0 im) \<and>
         m_cubelayout tf' = (if decode_texformat (subimage0 im) = TexFormatCubeFaceEnv
                             then cube_layout_of (subimage0 im) else m_cubelayout tf)"
proof -
  from assms obtain specs rd' where
    rs: "read_subimages \<lparr>img = im, current_subimage = 0\<rparr> [] (subimage0 im) 0 = Inr (specs, rd')"
    and tf': "tf' = first_open_fields (format_name im)
                 (use (tf\<lparr>m_input := Some \<lparr>img = im, current_subimage = 0\<rparr>\<rparr>)
                    \<lparr>m_spec := specs, m_input := Some rd'\<rparr>)"
    by (auto simp: open_tf_def Let_def use_def split: sum.splits)
  from read_subimages_hd[OF rs] have "hd specs = subimage0 im" by simp
  with tf' show ?thesis by (simp add: first_open_fields_cube use_def)
qed

text \<open>
  C8, as stated, at a concrete input: a cube-face environment whose image is a single
  4 x 4 face (\<open>w = h = 4\<close>, so neither 3w x 2h nor w x 6h). The construction of the
  file, which is its first open, sets the layout to \<^verbatim>\<open>CubeLast\<close>; \<^verbatim>\<open>CubeUnknown\<close> is the
  value the constructor starts from.
\<close>

theorem cube_layout_counterexample:
  "TextureFile_new (Opens (ex_cube_image 4 4)) ''env.tx'' 0 = Inr (ex_cube_tf 4 4 CubeLast, 1)
   \<and> m_texformat (ex_cube_tf 4 4 CubeLast) = TexFormatCubeFaceEnv
   \<and> m_cubelayout (TextureFile_init ''env.tx'') = CubeUnknown
   \<and> m_cubelayout (ex_cube_tf 4 4 CubeLast) \<noteq> CubeUnknown"
  by (simp add: file_defs ex_defs ex_cube_image_def ex_cube_spec_def ex_cube_tf_def
        cube_layout_of_def wrap32_def)

text \<open>
  C8, amended. For a cube-face environment texture, with
  \<open>w = max full_width tile_width\<close> and \<open>h = max full_height tile_height\<close> (and
  \<open>3 * w\<close> and \<open>6 * h\<close> within the range of a 32-bit int), the first open sets the cube
  layout to \<^verbatim>\<open>CubeThreeByTwo\<close> when the spec size is 3w x 2h, to \<^verbatim>\<open>CubeOneBySix\<close> when it
  is w x 6h, and to \<^verbatim>\<open>CubeLast\<close> in every other case.
\<close>

theorem open_cube_layout:
  assumes "open_tf (Opens im) (tf, n) = Inr (tf', n')"
      and "m_input tf = None" and "\<not> m_broken tf" and "m_spec tf = []"
      and "m_texformat tf' = TexFormatCubeFaceEnv"
      and "w = max (full_width (subimage0 im)) (tile_width (subimage0 im))"
      and "h = max (full_height (subimage0 im)) (tile_height (subimage0 im))"
      and "in_int32 (3 * w)" and "in_int32 (6 * h)"
  shows "m_cubelayout tf' =
           (if width (subimage0 im) = 3 * w \<and> height (subimage0 im) = 2 * h then CubeThreeByTwo
            else if width (subimage0 im) = w \<and> height (subimage0 im) = 6 * h then CubeOneBySix
            else CubeLast)"
proof -
  from assms(9) have h2: "in_int32 (2 * h)" by (auto simp: in_int32_def)
  from open_tf_first[OF assms(1-4)] assms(5)
  have "m_cubelayout tf' = cube_layout_of (subimage0 im)" by auto
  then show ?thesis
    using assms(6,7) wrap32_id[OF assms(8)] wrap32_id[OF assms(9)] wrap32_id[OF h2]
    by (simp add: cube_layout_of_def Let_def)
qed

text \<open>
  The amended C8 at three images with 4 x 4 faces: 12 x 8 gives \<^verbatim>\<open>CubeThreeByTwo\<close>,
  4 x 24 gives \<^verbatim>\<open>CubeOneBySix\<close>, 4 x 4 gives \<^verbatim>\<open>CubeLast\<close>.
\<close>

theorem open_cube_layout_witness:
  "open_tf (Opens (ex_cube_image 12 8)) (TextureFile_init ''env.tx'', 0) =
     Inr (ex_cube_tf 12 8 CubeThreeByTwo, 1)
   \<and> open_tf (Opens (ex_cube_image 4 24)) (TextureFile_init ''env.tx'', 0) =
     Inr (ex_cube_tf 4 24 CubeOneBySix, 1)
   \<and> open_tf (Opens (ex_cube_image 4 4)) (TextureFile_init ''env.tx'', 0) =
     Inr (ex_cube_tf 4 4 CubeLast, 1)
   \<and> in_int32 (3 * 4) \<and> in_int32 (6 * 4)
   \<and> m_cubelayout (ex_cube_tf 12 8 CubeThreeByTwo) = CubeThreeByTwo
   \<and> m_cubelayout (ex_cube_tf 4 24 CubeOneBySix) = CubeOneBySix
   \<and> m_cubelayout (ex_cube_tf 4 4 CubeLast) = CubeLast"
proof -
  have o: "open_tf (Opens (ex_cube_image wd ht)) (TextureFile_init ''env.tx'', 0) =
             Inr (ex_cube_tf wd ht (cube_layout_of (ex_cube_spec wd ht)), 1)" for wd ht
    by (simp add: file_defs ex_defs ex_cube_image_def ex_cube_spec_def ex_cube_tf_def Let_def)
  have l: "cube_layout_of (ex_cube_spec 12 8) = CubeThreeByTwo"
    "cube_layout_of (ex_cube_spec 4 24) = CubeOneBySix"
    "cube_layout_of (ex_cube_spec 4 4) = CubeLast"
    by (simp_all add: cube_layout_of_def ex_cube_spec_def wrap32_def)
  have i: "m_input (TextureFile_init ''env.tx'') = None"
    and b: "\<not> m_broken (TextureFile_init ''env.tx'')"
    and e: "m_spec (TextureFile_init ''env.tx'') = []"
    by (simp_all add: TextureFile_init_def)
  have f: "m_texformat (ex_cube_tf wd ht c) = TexFormatCubeFaceEnv" for wd ht c
    by (simp add: ex_cube_tf_def)
  have w: "(4::int) = max (full_width (subimage0 (ex_cube_image wd ht)))
                          (tile_width (subimage0 (ex_cube_image wd ht)))"
    and h: "(4::int) = max (full_height (subimage0 (ex_cube_image wd ht)))
                           (tile_height (subimage0 (ex_cube_image wd ht)))" for wd ht
    by (simp_all add: ex_cube_image_def ex_cube_spec_def)
  have r: "in_int32 (3 * 4)" "in_int32 (6 * 4)" by (simp_all add: in_int32_def)
  have o1: "open_tf (Opens (ex_cube_image 12 8)) (TextureFile_init ''env.tx'', 0) =
              Inr (ex_cube_tf 12 8 CubeThreeByTwo, 1)"
    and o2: "open_tf (Opens (ex_cube_image 4 24)) (TextureFile_init ''env.tx'', 0) =
              Inr (ex_cube_tf 4 24 CubeOneBySix, 1)"
    and o3: "open_tf (Opens (ex_cube_image 4 4)) (TextureFile_init ''env.tx'', 0) =
              Inr (ex_cube_tf 4 4 CubeLast, 1)"
    using o l by simp_all
  show ?thesis
    using open_cube_layout[OF o1 i b e f w h r] open_cube_layout[OF o2 i b e f w h r]
      open_cube_layout[OF o3 i b e f w h r] o1 o2 o3 r
    by (simp add: ex_cube_image_def ex_cube_spec_def)
qed

subsection \<open>Broken is terminal and excludes open (C9)\<close>

lemma open_tf_idle:
  "m_input tf \<noteq> None \<or> m_broken tf \<Longrightarrow> open_tf pr (tf, n) = Inr (tf, n)"
  by (auto simp: open_tf_def)

lemma open_tf_flags:
  assumes "open_tf pr (tf, n) = Inr (tf', n')"
  shows "(m_broken tf \<longrightarrow> m_broken tf') \<and>
         ((m_broken tf \<longrightarrow> m_input tf = None) \<longrightarrow> (m_broken tf' \<longrightarrow> m_input tf' = None))"
  using assms
  by (auto simp: open_tf_def use_def Let_def split: if_splits probe.splits sum.splits)

lemma read_tile_flags:
  assumes "read_tile pr l x y z (tf, n) = Inr (res, tf', n')"
  shows "(m_broken tf \<longrightarrow> m_broken tf') \<and>
         ((m_broken tf \<longrightarrow> m_input tf = None) \<longrightarrow> (m_broken tf' \<longrightarrow> m_input tf' = None))"
proof -
  from assms obtain tf1 rd where o: "open_tf pr (tf, n) = Inr (tf1, n')"
    and i: "m_input tf1 = Some rd" and b: "m_broken tf' = m_broken tf1" "m_input tf' \<noteq> None"
    by (auto simp: read_tile_def Let_def split: sum.splits option.splits)
  from open_tf_flags[OF o] i b show ?thesis by auto
qed

lemma release_flags:
  assumes "release (tf, n) = (tf', n')"
  shows "m_broken tf' = m_broken tf \<and> (m_input tf = None \<longrightarrow> m_input tf' = None)"
  using assms by (auto simp: release_def opened_def split: if_splits)

lemma file_step_flags:
  assumes "file_step p (tf, n) = Inr (tf', n')"
  shows "(m_broken tf \<longrightarrow> m_broken tf') \<and>
         ((m_broken tf \<longrightarrow> m_input tf = None) \<longrightarrow> (m_broken tf' \<longrightarrow> m_input tf' = None))"
proof (cases p)
  case (OpOpen pr)
  with assms show ?thesis using open_tf_flags by simp
next
  case (OpReadTile pr l x y z)
  with assms obtain res where "read_tile pr l x y z (tf, n) = Inr (res, tf', n')"
    by (auto split: sum.splits)
  then show ?thesis by (rule read_tile_flags)
next
  case OpRelease
  with assms have "release (tf, n) = (tf', n')" by simp
  from release_flags[OF this] show ?thesis by auto
qed

lemma run_file_ops_flags:
  "run_file_ops ps (tf, n) = Inr (tf', n') \<Longrightarrow>
     (m_broken tf \<longrightarrow> m_broken tf') \<and>
     ((m_broken tf \<longrightarrow> m_input tf = None) \<longrightarrow> (m_broken tf' \<longrightarrow> m_input tf' = None))"
proof (induction ps arbitrary: tf n)
  case Nil
  then show ?case by simp
next
  case (Cons p ps)
  then obtain tf1 n1 where s: "file_step p (tf, n) = Inr (tf1, n1)"
    and r: "run_file_ops ps (tf1, n1) = Inr (tf', n')"
    by (auto split: sum.splits)
  from file_step_flags[OF s] Cons.IH[OF r] show ?case by blast
qed

text \<open>
  C9. Take any file, in the state \<open>tf1\<close> that some sequence \<open>ops1\<close> of \<^verbatim>\<open>open\<close>,
  \<^verbatim>\<open>read_tile\<close> and \<^verbatim>\<open>release\<close> calls has led to from its initial field values, and any
  further sequence \<open>ops2\<close> leading to \<open>tf2\<close>, under any behaviour of the disk. Then:
  if \<open>tf1\<close> is broken, so is \<open>tf2\<close> (broken is never cleared); if \<open>tf1\<close> is broken, it
  holds no reader (broken implies not open); \<^verbatim>\<open>open\<close> on a broken \<open>tf1\<close> returns with
  the file and the counter of open files unchanged (no retry); and \<^verbatim>\<open>open\<close> on an open
  \<open>tf1\<close> returns with both unchanged (no reopening).
\<close>

theorem broken_terminal_open_idempotent:
  assumes "run_file_ops ops1 (TextureFile_init filename, n0) = Inr (tf1, n1)"
      and "run_file_ops ops2 (tf1, n1) = Inr (tf2, n2)"
  shows "(m_broken tf1 \<longrightarrow> m_broken tf2) \<and>
         (m_broken tf1 \<longrightarrow> m_input tf1 = None) \<and>
         (m_broken tf1 \<longrightarrow> open_tf pr (tf1, n1) = Inr (tf1, n1)) \<and>
         (m_input tf1 \<noteq> None \<longrightarrow> open_tf pr (tf1, n1) = Inr (tf1, n1))"
proof -
  have "\<not> m_broken (TextureFile_init filename)" by (simp add: TextureFile_init_def)
  with run_file_ops_flags[OF assms(1)] have "m_broken tf1 \<longrightarrow> m_input tf1 = None" by blast
  moreover from run_file_ops_flags[OF assms(2)] have "m_broken tf1 \<longrightarrow> m_broken tf2" by blast
  ultimately show ?thesis using open_tf_idle by blast
qed

text \<open>
  C9 at two runs. In the first the file is opened, closed by two \<^verbatim>\<open>release\<close> calls and
  broken by a reopen that fails; a later \<^verbatim>\<open>open\<close> on a readable disk and a \<^verbatim>\<open>release\<close>
  leave it broken and closed. In the second the file is open, is read, and a further
  \<^verbatim>\<open>open\<close> changes neither the file nor the counter.
\<close>

theorem broken_terminal_open_idempotent_witness:
  "run_file_ops [OpOpen (Opens ex_image), OpRelease, OpRelease, OpOpen OpenFails]
      (TextureFile_init ''a.tx'', 0) = Inr (ex_dead_tf ''a.tx'', 0)
   \<and> run_file_ops [OpOpen (Opens ex_image), OpRelease] (ex_dead_tf ''a.tx'', 0) =
       Inr (ex_dead_tf ''a.tx'', 0)
   \<and> m_broken (ex_dead_tf ''a.tx'') \<and> m_input (ex_dead_tf ''a.tx'') = None
   \<and> open_tf (Opens ex_image) (ex_dead_tf ''a.tx'', 0) = Inr (ex_dead_tf ''a.tx'', 0)
   \<and> run_file_ops [OpOpen (Opens ex_image)] (TextureFile_init ''a.tx'', 0) =
       Inr (ex_open_tf ''a.tx'' True, 1)
   \<and> run_file_ops [OpReadTile NoReader 0 0 0 0] (ex_open_tf ''a.tx'' True, 1) =
       Inr (ex_open_tf ''a.tx'' True, 1)
   \<and> m_input (ex_open_tf ''a.tx'' True) \<noteq> None
   \<and> open_tf NoReader (ex_open_tf ''a.tx'' True, 1) = Inr (ex_open_tf ''a.tx'' True, 1)"
proof -
  have a1: "run_file_ops [OpOpen (Opens ex_image), OpRelease, OpRelease, OpOpen OpenFails]
              (TextureFile_init ''a.tx'', 0) = Inr (ex_dead_tf ''a.tx'', 0)"
    by (simp add: file_defs ex_defs)
  have a2: "run_file_ops [OpOpen (Opens ex_image), OpRelease] (ex_dead_tf ''a.tx'', 0) =
              Inr (ex_dead_tf ''a.tx'', 0)"
    by (simp add: file_defs ex_defs)
  have b1: "run_file_ops [OpOpen (Opens ex_image)] (TextureFile_init ''a.tx'', 0) =
              Inr (ex_open_tf ''a.tx'' True, 1)"
    by (simp add: file_defs ex_defs)
  have b2: "run_file_ops [OpReadTile NoReader 0 0 0 0] (ex_open_tf ''a.tx'' True, 1) =
              Inr (ex_open_tf ''a.tx'' True, 1)"
    by (simp add: file_defs ex_defs)
  have d: "m_broken (ex_dead_tf ''a.tx'')" "m_input (ex_open_tf ''a.tx'' True) \<noteq> None"
    by (simp_all add: ex_defs)
  show ?thesis
    using broken_terminal_open_idempotent[OF a1 a2, of "Opens ex_image"]
      broken_terminal_open_idempotent[OF b1 b2, of NoReader] a1 a2 b1 b2 d
    by simp
qed

subsection \<open>texture changes the caller's options (C10)\<close>

lemma texture_resolved_options:
  assumes "texture_resolved fl disk filename tf opts runflags fa la s_ref t_ref result st =
             Inr (opts', m', sys')"
  shows "opts' = opts\<lparr>swrap := (if swrap opts = WrapDefault then m_swrap tf else swrap opts),
                      twrap := (if twrap opts = WrapDefault then m_twrap tf else twrap opts),
                      actualchannels :=
                        Imath_clamp (nchannels (hd (m_spec tf)) - firstchannel opts) 0
                          (o_nchannels opts),
                      alpha := (if alpha opts \<noteq> None \<and>
                                   Imath_clamp (nchannels (hd (m_spec tf)) - firstchannel opts) 0
                                     (o_nchannels opts) + 1 < o_nchannels opts
                                then None else alpha opts)\<rparr>"
proof (cases st)
  case (Pair m sys)
  show ?thesis
  proof (cases "m_spec tf")
    case Nil
    with assms Pair show ?thesis by (simp add: texture_resolved_def)
  next
    case (Cons spec rest)
    with assms Pair show ?thesis
      by (auto simp: texture_resolved_def Let_def split: if_splits sum.splits)
  qed
qed

lemma texture_options_kept:
  assumes "texture fuel disk cv fl filename opts runflags fa la s_ref t_ref result (m, sys) =
             Some (Inr (opts', m', sys'))"
  shows "swrap opts' = swrap opts \<or> swrap opts = WrapDefault"
    and "twrap opts' = twrap opts \<or> twrap opts = WrapDefault"
    and "alpha opts' = alpha opts \<or> alpha opts' = None"
proof -
  from assms have "opts' = opts \<or>
      (\<exists>tf sys1. texture_resolved fl disk filename tf opts runflags fa la s_ref t_ref result
                   (m, sys1) = Inr (opts', m', sys'))"
    by (auto simp: texture_def split: option.splits sum.splits if_splits)
  then show "swrap opts' = swrap opts \<or> swrap opts = WrapDefault"
    and "twrap opts' = twrap opts \<or> twrap opts = WrapDefault"
    and "alpha opts' = alpha opts \<or> alpha opts' = None"
    by (auto dest!: texture_resolved_options split: if_splits)
qed

text \<open>
  What the code does to the options of a call on a file that was found and is not
  broken. \<^verbatim>\<open>texture\<close> takes the options by reference; \<open>opts1\<close> is the caller's object
  after the call. A Default \<open>swrap\<close> or \<open>twrap\<close> is replaced by the file's wrap,
  \<open>actualchannels\<close> is stored, and the alpha reference is null exactly when it was null
  before or \<open>actualchannels + 1 < nchannels\<close>, the test of line 516. A second call that
  reuses the object starts from these values: a wrap that is no longer Default stays
  what the first call made it, and a null alpha reference stays null.
\<close>

lemma texture_options_after_call:
  assumes call1: "texture fuel disk cv fl filename opts runflags fa la s_ref t_ref result
                    (m, sys) = Some (Inr (opts1, m1, sys1))"
      and found: "find_texturefile fuel disk filename sys = Some (Inr sysf)"
                 "map_of (m_texturefiles sysf) filename = Some tf" "\<not> m_broken tf"
      and call2: "texture fuel2 disk2 cv2 fl2 filename2 opts1 runflags2 fa2 la2 s_ref2 t_ref2
                    result2 (m1, sys1) = Some (Inr (opts2, m2, sys2))"
  shows "swrap opts1 = (if swrap opts = WrapDefault then m_swrap tf else swrap opts) \<and>
         twrap opts1 = (if twrap opts = WrapDefault then m_twrap tf else twrap opts) \<and>
         actualchannels opts1 =
           Imath_clamp (nchannels (hd (m_spec tf)) - firstchannel opts) 0 (o_nchannels opts) \<and>
         alpha opts1 =
           (if alpha opts \<noteq> None \<and> actualchannels opts1 + 1 < o_nchannels opts
            then None else alpha opts) \<and>
         (swrap opts1 \<noteq> WrapDefault \<longrightarrow> swrap opts2 = swrap opts1) \<and>
         (twrap opts1 \<noteq> WrapDefault \<longrightarrow> twrap opts2 = twrap opts1) \<and>
         (alpha opts1 = None \<longrightarrow> alpha opts2 = None)"
proof -
  from call1 found
  have "texture_resolved fl disk filename tf opts runflags fa la s_ref t_ref result (m, sysf) =
          Inr (opts1, m1, sys1)"
    by (simp add: texture_def)
  from texture_resolved_options[OF this]
  have 1: "swrap opts1 = (if swrap opts = WrapDefault then m_swrap tf else swrap opts)"
    and 2: "twrap opts1 = (if twrap opts = WrapDefault then m_twrap tf else twrap opts)"
    and 3: "actualchannels opts1 =
              Imath_clamp (nchannels (hd (m_spec tf)) - firstchannel opts) 0 (o_nchannels opts)"
    and 4: "alpha opts1 =
              (if alpha opts \<noteq> None \<and> actualchannels opts1 + 1 < o_nchannels opts
               then None else alpha opts)"
    by simp_all
  from texture_options_kept[OF call2]
  have "swrap opts1 \<noteq> WrapDefault \<longrightarrow> swrap opts2 = swrap opts1"
    and "twrap opts1 \<noteq> WrapDefault \<longrightarrow> twrap opts2 = twrap opts1"
    and "alpha opts1 = None \<longrightarrow> alpha opts2 = None"
    by auto
  with 1 2 3 4 show ?thesis by blast
qed

text \<open>
  C10 at a failing input. The caller asks the one-channel file \<^verbatim>\<open>a.tx\<close> for two
  channels and an alpha output (cell 3), with Default wraps, at the point (0.5, 0.5).
  The file has no second channel, so none that could be the alpha. After the call the
  object has the file's wraps (Black) in place of Default and \<open>actualchannels = 1\<close>, as
  the claim says, but its alpha reference is still set: the test of line 516 reads
  \<open>1 + 1 < 2\<close>. The alpha output has not been filled with the fill value either; the
  lookup has stored in it the value 1 of the texel to the right of the one sampled,
  which is the cell after the sampled texel in the tile buffer.
\<close>

theorem texture_keeps_alpha_of_absent_channel:
  "options_after
     (texture 0 ex_disk ex_cv round_f32 ''a.tx''
        (ex_opts 2 WrapDefault WrapDefault (Some (ex_ref 3)) 0)
        (lane_is 0) 0 0 (ex_ref 0) (ex_ref 1) 10
        (ex_mem (1 / 2) (1 / 2) f32_seven_tenths, ex_one_file 100))
     = Some (ex_opts 2 WrapBlack WrapBlack (Some (ex_ref 3)) 1)
   \<and> nchannels ex_spec = 1
   \<and> cell_after 3
     (texture 0 ex_disk ex_cv round_f32 ''a.tx''
        (ex_opts 2 WrapDefault WrapDefault (Some (ex_ref 3)) 0)
        (lane_is 0) 0 0 (ex_ref 0) (ex_ref 1) 10
        (ex_mem (1 / 2) (1 / 2) f32_seven_tenths, ex_one_file 100))
     = Some 1
   \<and> cell_after 10
     (texture 0 ex_disk ex_cv round_f32 ''a.tx''
        (ex_opts 2 WrapDefault WrapDefault (Some (ex_ref 3)) 0)
        (lane_is 0) 0 0 (ex_ref 0) (ex_ref 1) 10
        (ex_mem (1 / 2) (1 / 2) f32_seven_tenths, ex_one_file 100))
     = Some 0
   \<and> m_texels (ex_tile ''a.tx'') = [0, 1, 1, 0]"
  by (simp add: sampler_defs file_defs ex_defs ex_mem_def f32_defs options_after_def)

end
